theory Spec2Isabelle
  imports Complex_Main "HOL-Library.AList"
begin

section \<open>JavaScript values and exceptions\<close>

text \<open>
  A thrown \<^verbatim>\<open>Error\<close> is the left injection of a sum, carrying \<^verbatim>\<open>error.message\<close>;
  \<open>try_catch\<close> is the \<^verbatim>\<open>try { ... } catch (error) { ... }\<close> statement.
\<close>

type_synonym 'a thrown = "string + 'a"

definition try_catch :: "'a thrown \<Rightarrow> (string \<Rightarrow> 'a thrown) \<Rightarrow> 'a thrown" where
  "try_catch body handler = (case body of Inl message \<Rightarrow> handler message | Inr v \<Rightarrow> Inr v)"

definition and_then :: "'a thrown \<Rightarrow> ('a \<Rightarrow> 'b thrown) \<Rightarrow> 'b thrown" where
  "and_then m f = (case m of Inl message \<Rightarrow> Inl message | Inr v \<Rightarrow> f v)"

definition is_upper :: "char \<Rightarrow> bool" where
  "is_upper c = (let n = (of_char c :: nat) in 65 \<le> n \<and> n \<le> 90)"

definition is_digit :: "char \<Rightarrow> bool" where
  "is_digit c = (let n = (of_char c :: nat) in 48 \<le> n \<and> n \<le> 57)"

text \<open>ASCII lower-casing: an upper-case letter differs from its lower-case form in bit 5.\<close>

definition toLowerCase :: "string \<Rightarrow> string" where
  "toLowerCase s =
     map (\<lambda>c. if is_upper c
              then (case c of Char b0 b1 b2 b3 b4 b5 b6 b7 \<Rightarrow> Char b0 b1 b2 b3 b4 True b6 b7)
              else c) s"


section \<open>Hashing utility (backend/src/utils/hashUtils.js)\<close>

text \<open>
  The module builds everything from \<^verbatim>\<open>crypto.createHash('sha256')\<close> of Node's
  standard library, which is not code of the repository. The digest function is
  therefore a parameter \<open>sha256\<close> of every definition below: a function from the
  bytes hashed to the hexadecimal digest. Strings are byte lists.
\<close>

type_synonym hash_fn = "string \<Rightarrow> string"

text \<open>
  \<^verbatim>\<open>hashDocumentNumber(documentNumber, documentType)\<close>: the template literal
  \<^verbatim>\<open>`${documentType}:${documentNumber}`\<close> is hashed.
\<close>

definition hashDocumentNumber :: "hash_fn \<Rightarrow> string \<Rightarrow> string \<Rightarrow> string" where
  "hashDocumentNumber sha256 documentNumber documentType =
     (let combined = documentType @ '':'' @ documentNumber in sha256 combined)"

definition hashUserId :: "hash_fn \<Rightarrow> string \<Rightarrow> string" where
  "hashUserId sha256 userId = sha256 (''user:'' @ userId)"

definition hashFile :: "hash_fn \<Rightarrow> string \<Rightarrow> string" where
  "hashFile sha256 fileBuffer = sha256 fileBuffer"

text \<open>
  The \<^verbatim>\<open>for (let i = 0; i < hashes.length; i += 2)\<close> loop of \<^verbatim>\<open>createMerkleRoot\<close>,
  with the loop counter and the array \<^verbatim>\<open>newLevel\<close> as arguments. The source reads
  \<^verbatim>\<open>hashes[i + 1] || left\<close>: the right element is replaced by the left one when the
  read is out of range (\<^verbatim>\<open>undefined\<close>) and also when it is the empty string, which
  is falsy in JavaScript.
\<close>

function merkleLevel :: "hash_fn \<Rightarrow> string list \<Rightarrow> nat \<Rightarrow> string list \<Rightarrow> string list" where
  "merkleLevel sha256 hashes i newLevel =
     (if i < length hashes then
        (let left = hashes ! i;
             right = (if i + 1 < length hashes \<and> hashes ! (i + 1) \<noteq> []
                      then hashes ! (i + 1) else left)
         in merkleLevel sha256 hashes (i + 2) (newLevel @ [sha256 (left @ right)]))
      else newLevel)"
  by pat_completeness auto
termination
  by (relation "measure (\<lambda>(sha256, hashes, i, newLevel). length hashes - i)") auto

declare merkleLevel.simps [simp del]

lemma length_merkleLevel:
  "length (merkleLevel sha256 hs i acc) = length acc + (length hs - i + 1) div 2"
proof (induction sha256 hs i acc rule: merkleLevel.induct)
  case (1 sha256 hs i acc)
  show ?case
  proof (cases "i < length hs")
    case True
    have "length (merkleLevel sha256 hs i acc)
            = Suc (length acc) + (length hs - (i + 2) + 1) div 2"
      using "1.IH" [OF True refl refl] True
      by (subst merkleLevel.simps) (simp add: Let_def)
    also have "\<dots> = length acc + (length hs - i + 1) div 2"
      using True by arith
    finally show ?thesis .
  next
    case False
    then show ?thesis by (subst merkleLevel.simps) simp
  qed
qed

text \<open>
  \<^verbatim>\<open>createMerkleRoot(hashes)\<close>. A missing argument (\<^verbatim>\<open>null\<close>, \<^verbatim>\<open>undefined\<close>) is
  \<open>None\<close>; the guard \<^verbatim>\<open>!hashes || hashes.length === 0\<close> comes first, then the
  one-element case, then the recursive call on the next level.
\<close>

function (domintros) createMerkleRoot :: "hash_fn \<Rightarrow> string list option \<Rightarrow> string" where
  "createMerkleRoot sha256 hashes =
     (case hashes of
        None \<Rightarrow> sha256 ''empty''
      | Some hs \<Rightarrow>
          if length hs = 0 then sha256 ''empty''
          else if length hs = 1 then hs ! 0
          else createMerkleRoot sha256 (Some (merkleLevel sha256 hs 0 [])))"
  by pat_completeness auto
termination
proof (relation "measure (\<lambda>(sha256, hashes). case hashes of None \<Rightarrow> 0 | Some hs \<Rightarrow> length hs)",
    goal_cases)
  case 1
  show ?case by simp
next
  case (2 sha256 hashes hs)
  then have "(length hs + 1) div 2 < length hs" by arith
  with 2 show ?case by (simp add: length_merkleLevel)
qed

declare createMerkleRoot.simps [simp del]

text \<open>
  The Merkle root as the specification words it: adjacent hashes are paired, each
  pair's concatenation is hashed, the last hash is paired with itself when the level
  has odd length, and the construction is repeated until one hash is left; the empty
  list gives the hash of the sentinel. This definition follows the specification, not
  the source; it is what \<open>createMerkleRoot\<close> is compared with.
\<close>

fun spec_pairLevel :: "hash_fn \<Rightarrow> string list \<Rightarrow> string list" where
  "spec_pairLevel sha256 [] = []"
| "spec_pairLevel sha256 [l] = [sha256 (l @ l)]"
| "spec_pairLevel sha256 (l # r # rest) = sha256 (l @ r) # spec_pairLevel sha256 rest"

lemma length_spec_pairLevel: "length (spec_pairLevel sha256 hs) = (length hs + 1) div 2"
  by (induction sha256 hs rule: spec_pairLevel.induct) simp_all

function spec_merkleRoot :: "hash_fn \<Rightarrow> string list \<Rightarrow> string" where
  "spec_merkleRoot sha256 [] = sha256 ''empty''"
| "spec_merkleRoot sha256 [h] = h"
| "spec_merkleRoot sha256 (h1 # h2 # hs) =
     spec_merkleRoot sha256 (spec_pairLevel sha256 (h1 # h2 # hs))"
  by pat_completeness auto
termination
  by (relation "measure (\<lambda>(sha256, hs). length hs)")
     (simp_all add: length_spec_pairLevel)


section \<open>Content store client (backend/src/utils/ipfsClient.js)\<close>

text \<open>\<^verbatim>\<open>filePath.split(/[\\/]/).pop()\<close>: what follows the last slash or backslash.\<close>

definition last_path_segment :: "string \<Rightarrow> string" where
  "last_path_segment filePath =
     rev (takeWhile (\<lambda>c. c \<noteq> CHR ''/'' \<and> c \<noteq> CHR 0x5C) (rev filePath))"

text \<open>
  What the module reads from its surroundings: the three environment settings, the
  digest function, the files on disk (\<^verbatim>\<open>fs.readFileSync\<close> throws for a path that
  has no file) and the three provider uploads, which are HTTP calls and may throw.
\<close>

record provider_answer =
  pa_cid :: string
  pa_size :: nat
  pa_timestamp :: string

record ipfs_env =
  ENABLE_IPFS :: bool
  FALLBACK_TO_LOCAL :: bool
  IPFS_PROVIDER :: string
  sha256_hex :: hash_fn
  files :: "string \<rightharpoonup> string"
  uploadToPinata :: "string \<Rightarrow> (string \<times> string) list \<Rightarrow> provider_answer thrown"
  uploadToInfura :: "string \<Rightarrow> (string \<times> string) list \<Rightarrow> provider_answer thrown"
  uploadToLocalIPFS :: "string \<Rightarrow> (string \<times> string) list \<Rightarrow> provider_answer thrown"

definition readFileSync :: "(string \<rightharpoonup> string) \<Rightarrow> string \<Rightarrow> string thrown" where
  "readFileSync fs path =
     (case fs path of
        None \<Rightarrow> Inl (''ENOENT: no such file or directory, open '' @ [CHR 0x27] @ path @ [CHR 0x27])
      | Some buffer \<Rightarrow> Inr buffer)"

definition calculateFileHash :: "ipfs_env \<Rightarrow> string \<Rightarrow> string thrown" where
  "calculateFileHash E filePath =
     and_then (readFileSync (files E) filePath) (\<lambda>fileBuffer. Inr (sha256_hex E fileBuffer))"

record upload_result =
  cid :: "string option"
  size_bytes :: "nat option"
  timestamp :: "string option"
  provider :: string
  fileHash :: string
  localPath :: string
  error :: "string option"

definition uploadToIPFS :: "ipfs_env \<Rightarrow> string \<Rightarrow> (string \<times> string) list \<Rightarrow> upload_result thrown" where
  "uploadToIPFS E filePath metadata =
     (if \<not> ENABLE_IPFS E then
        and_then (calculateFileHash E filePath) (\<lambda>h.
          Inr \<lparr>cid = None, size_bytes = None, timestamp = None, provider = ''disabled'',
               fileHash = h, localPath = filePath, error = None\<rparr>)
      else
        try_catch
          (and_then (calculateFileHash E filePath) (\<lambda>h.
           and_then
             (let p = toLowerCase (IPFS_PROVIDER E) in
              if p = ''pinata'' then uploadToPinata E filePath metadata
              else if p = ''infura'' then uploadToInfura E filePath metadata
              else if p = ''local'' then uploadToLocalIPFS E filePath metadata
              else Inl (''Unknown IPFS provider: '' @ IPFS_PROVIDER E)) (\<lambda>result.
             Inr \<lparr>cid = Some (pa_cid result), size_bytes = Some (pa_size result),
                  timestamp = Some (pa_timestamp result), provider = IPFS_PROVIDER E,
                  fileHash = h, localPath = filePath, error = None\<rparr>)))
          (\<lambda>message.
             if FALLBACK_TO_LOCAL E then
               and_then (calculateFileHash E filePath) (\<lambda>h.
                 Inr \<lparr>cid = None, size_bytes = None, timestamp = None,
                      provider = ''fallback-local'', fileHash = h, localPath = filePath,
                      error = Some message\<rparr>)
             else Inl (''IPFS upload failed: '' @ message)))"

text \<open>
  An entry of the array \<^verbatim>\<open>uploadMultipleToIPFS\<close> returns. The source builds
  \<^verbatim>\<open>{ filePath, success: true, ...result }\<close> or
  \<^verbatim>\<open>{ filePath, success: false, error: error.message }\<close>; \<open>uploaded\<close> holds the
  fields spread from \<open>result\<close> and \<open>failure\<close> the message of a failure entry.
\<close>

record ipfs_entry =
  filePath :: string
  success :: bool
  uploaded :: "upload_result option"
  failure :: "string option"

definition entry_cid :: "ipfs_entry \<Rightarrow> string option" where
  "entry_cid e = (case uploaded e of None \<Rightarrow> None | Some r \<Rightarrow> cid r)"

definition entry_fileHash :: "ipfs_entry \<Rightarrow> string option" where
  "entry_fileHash e = map_option fileHash (uploaded e)"

definition entry_provider :: "ipfs_entry \<Rightarrow> string option" where
  "entry_provider e = map_option provider (uploaded e)"

definition entry_error :: "ipfs_entry \<Rightarrow> string option" where
  "entry_error e = (case uploaded e of None \<Rightarrow> failure e | Some r \<Rightarrow> error r)"

text \<open>The body of the \<^verbatim>\<open>for (const filePath of filePaths)\<close> loop, and the loop.\<close>

definition upload_one :: "ipfs_env \<Rightarrow> (string \<times> string) list \<Rightarrow> string \<Rightarrow> ipfs_entry list
    \<Rightarrow> ipfs_entry list thrown" where
  "upload_one E metadata file_path results =
     try_catch
       (and_then
          (uploadToIPFS E file_path
             (AList.update ''filename'' (last_path_segment file_path) metadata))
          (\<lambda>result. Inr (results @
             [\<lparr>filePath = file_path, success = True, uploaded = Some result, failure = None\<rparr>])))
       (\<lambda>message. Inr (results @
             [\<lparr>filePath = file_path, success = False, uploaded = None, failure = Some message\<rparr>]))"

fun upload_loop :: "ipfs_env \<Rightarrow> (string \<times> string) list \<Rightarrow> string list \<Rightarrow> ipfs_entry list
    \<Rightarrow> ipfs_entry list thrown" where
  "upload_loop E metadata [] results = Inr results"
| "upload_loop E metadata (file_path # rest) results =
     and_then (upload_one E metadata file_path results) (upload_loop E metadata rest)"

definition uploadMultipleToIPFS :: "ipfs_env \<Rightarrow> string list \<Rightarrow> (string \<times> string) list
    \<Rightarrow> ipfs_entry list thrown" where
  "uploadMultipleToIPFS E filePaths metadata = upload_loop E metadata filePaths []"


text \<open>The entry the loop body appends for one path.\<close>

definition entry_of :: "ipfs_env \<Rightarrow> (string \<times> string) list \<Rightarrow> string \<Rightarrow> ipfs_entry" where
  "entry_of E metadata file_path =
     (case uploadToIPFS E file_path
             (AList.update ''filename'' (last_path_segment file_path) metadata) of
        Inr result \<Rightarrow> \<lparr>filePath = file_path, success = True, uploaded = Some result, failure = None\<rparr>
      | Inl message \<Rightarrow> \<lparr>filePath = file_path, success = False, uploaded = None, failure = Some message\<rparr>)"


section \<open>Data model (backend/src/models/KYCRecord.js, User.js)\<close>

text \<open>
  The Mongoose schemas, one record per (sub)document. A path that a document may lack
  is an \<open>option\<close>. Identifiers are the strings of the ObjectIds, instants are
  milliseconds since the epoch (\<^verbatim>\<open>Date\<close>), scores are numbers.
\<close>

datatype kyc_status =
  submitted | ai_processing | ai_verified | credential_issued | blockchain_registered
  | completed | rejected

datatype ai_status = pending | processing | verified | failed

datatype step_status = step_pending | step_processing | step_completed | step_failed

datatype user_kyc_status = kyc_pending | kyc_in_progress | kyc_verified | kyc_rejected

text \<open>
  The objects with the keys \<^verbatim>\<open>front\<close>, \<^verbatim>\<open>back\<close>, \<^verbatim>\<open>selfie\<close>; \<open>back\<close> is a
  keyword of Isabelle, so the field is \<open>back_side\<close>.
\<close>

record slots =
  front :: "string option"
  back_side :: "string option"
  selfie :: "string option"

datatype ocr_data =
  OcrDummy string string string
  | OcrExtracted string string

record ai_steps =
  qualityCheck :: step_status
  tamperingDetection :: step_status
  ocrExtraction :: step_status
  documentValidation :: step_status
  faceMatching :: step_status
  finalDecision :: step_status

record ai_verification =
  aiv_status :: ai_status
  confidenceScore :: "real option"
  faceMatchScore :: "real option"
  ocrData :: "ocr_data option"
  verifiedAt :: "int option"
  errors :: "string list"
  steps :: ai_steps

record ipfs_storage =
  enabled :: bool
  frontCID :: "string option"
  backCID :: "string option"
  selfieCID :: "string option"
  frontHash :: "string option"
  backHash :: "string option"
  selfieHash :: "string option"
  ipfs_provider :: "string option"
  uploadedAt :: "int option"
  gatewayUrls :: slots

record credential_data =
  cd_fullName :: string
  cd_documentType :: string
  cd_documentNumber :: string

text \<open>
  The updates of \<^verbatim>\<open>issueAriesCredential\<close> also name \<^verbatim>\<open>ariesCredential.mock\<close> and
  \<^verbatim>\<open>ariesCredential.error\<close>; the schema declares neither path, so they are not part
  of the stored document.
\<close>

record aries_credential =
  credentialId :: "string option"
  credentialExchangeId :: "string option"
  issuedAt :: "int option"
  credentialData :: "credential_data option"

record blockchain_verification =
  transactionHash :: "string option"
  blockNumber :: "nat option"
  verificationHash :: "string option"
  registeredAt :: "int option"
  contractAddress :: "string option"

record request_metadata =
  ipAddress :: "string option"
  userAgent :: "string option"

record kyc_record =
  rec_id :: string
  userId :: string
  documentType :: string
  documentNumber :: string
  documentNumberHash :: "string option"
  userIdHash :: "string option"
  fileHashes :: slots
  merkleRoot :: "string option"
  documentImages :: slots
  ipfsStorage :: ipfs_storage
  aiVerification :: ai_verification
  ariesCredential :: aries_credential
  blockchainVerification :: blockchain_verification
  status :: kyc_status
  rejectionReason :: "string option"
  submittedAt :: int
  completedAt :: "int option"
  metadata_of :: request_metadata

record user =
  user_id :: string
  fullName :: string
  kycStatus :: user_kyc_status
  kycRecordId :: "string option"
  role :: string

text \<open>The arguments of a call of \<^verbatim>\<open>processAIVerification\<close>.\<close>

record pipeline_call =
  call_kycRecordId :: string
  call_documentImages :: slots
  call_documentType :: string
  call_documentNumber :: string

text \<open>
  The state the controller works on: the two collections, in insertion order; the
  records whose five-minute timer (\<^verbatim>\<open>setTimeout\<close>) is pending; and the background
  pipelines that have been started.
\<close>

record world =
  kycRecords :: "kyc_record list"
  users :: "user list"
  timers :: "string list"
  started :: "pipeline_call list"

text \<open>The schema defaults of a new \<^verbatim>\<open>KYCRecord\<close>.\<close>

definition default_steps :: ai_steps where
  "default_steps =
     \<lparr>qualityCheck = step_pending, tamperingDetection = step_pending,
      ocrExtraction = step_pending, documentValidation = step_pending,
      faceMatching = step_pending, finalDecision = step_pending\<rparr>"

definition default_aiVerification :: ai_verification where
  "default_aiVerification =
     \<lparr>aiv_status = pending, confidenceScore = None, faceMatchScore = None, ocrData = None,
      verifiedAt = None, errors = [], steps = default_steps\<rparr>"

definition default_ipfsStorage :: ipfs_storage where
  "default_ipfsStorage =
     \<lparr>enabled = False, frontCID = None, backCID = None, selfieCID = None, frontHash = None,
      backHash = None, selfieHash = None, ipfs_provider = None, uploadedAt = None,
      gatewayUrls = \<lparr>front = None, back_side = None, selfie = None\<rparr>\<rparr>"

definition default_ariesCredential :: aries_credential where
  "default_ariesCredential =
     \<lparr>credentialId = None, credentialExchangeId = None, issuedAt = None,
      credentialData = None\<rparr>"

definition default_blockchainVerification :: blockchain_verification where
  "default_blockchainVerification =
     \<lparr>transactionHash = None, blockNumber = None, verificationHash = None,
      registeredAt = None, contractAddress = None\<rparr>"

text \<open>
  The queries. \<^verbatim>\<open>findOne\<close> and \<^verbatim>\<open>findById\<close> return the first matching document,
  \<^verbatim>\<open>findByIdAndUpdate\<close> changes the first document with the identifier and nothing
  when there is none. The database itself is taken to answer: a lost connection is
  not modelled.
\<close>

fun update_first :: "('a \<Rightarrow> bool) \<Rightarrow> ('a \<Rightarrow> 'a) \<Rightarrow> 'a list \<Rightarrow> 'a list" where
  "update_first p f [] = []"
| "update_first p f (x # xs) = (if p x then f x # xs else x # update_first p f xs)"

definition KYCRecord_findById :: "string \<Rightarrow> world \<Rightarrow> kyc_record option" where
  "KYCRecord_findById i w = find (\<lambda>r. rec_id r = i) (kycRecords w)"

definition KYCRecord_findByIdAndUpdate ::
    "string \<Rightarrow> (kyc_record \<Rightarrow> kyc_record) \<Rightarrow> world \<Rightarrow> world" where
  "KYCRecord_findByIdAndUpdate i upd w =
     w\<lparr>kycRecords := update_first (\<lambda>r. rec_id r = i) upd (kycRecords w)\<rparr>"

definition User_findById :: "string \<Rightarrow> world \<Rightarrow> user option" where
  "User_findById i w = find (\<lambda>u. user_id u = i) (users w)"

definition User_findByIdAndUpdate :: "string \<Rightarrow> (user \<Rightarrow> user) \<Rightarrow> world \<Rightarrow> world" where
  "User_findByIdAndUpdate i upd w =
     w\<lparr>users := update_first (\<lambda>u. user_id u = i) upd (users w)\<rparr>"

text \<open>
  \<^verbatim>\<open>KYCRecord.findOne({ userId, status: { $in: ['submitted', 'ai_processing',
  'ai_verified', 'credential_issued'] } })\<close> of \<^verbatim>\<open>submitKYC\<close>.
\<close>

definition KYCRecord_findOne_in_progress :: "string \<Rightarrow> world \<Rightarrow> kyc_record option" where
  "KYCRecord_findOne_in_progress uid w =
     find (\<lambda>r. userId r = uid
              \<and> status r \<in> set [submitted, ai_processing, ai_verified, credential_issued])
       (kycRecords w)"

text \<open>Decimal digits of a natural number, for the numbers the code prints into strings.\<close>

function decimal :: "nat \<Rightarrow> string" where
  "decimal n = (if n < 10 then [''0123456789'' ! n]
                else decimal (n div 10) @ [''0123456789'' ! (n mod 10)])"
  by pat_completeness auto
termination
  by (relation "measure (\<lambda>n. n)") auto

declare decimal.simps [simp del]


section \<open>Request validation (backend/src/middleware/validateKYC.js)\<close>

text \<open>
  The request as the upload middleware hands it on: the authenticated user, the two
  text fields of the form (absent when the form did not send them) and \<^verbatim>\<open>req.files\<close>,
  an object from field names to arrays of uploaded files, in the order of its keys.
\<close>

record uploaded_file =
  multer_path :: string
  multer_size :: nat
  mimetype :: string
  originalname :: string

record request =
  req_user_id :: string
  body_documentType :: "string option"
  body_documentNumber :: "string option"
  req_files :: "(string \<times> uploaded_file list) list option"
  req_ip :: "string option"
  req_userAgent :: "string option"

text \<open>
  The answers of the submission endpoint, one constructor per shape of the JSON body:
  \<^item> \<open>ValidationFailed status message errors\<close>, the middleware's
    \<^verbatim>\<open>{ success: false, message, errors }\<close>;
  \<^item> \<open>BadRequest message\<close>, status 400 with \<^verbatim>\<open>{ success: false, message }\<close>;
  \<^item> \<open>InProgress currentStatus submittedAt kycRecordId\<close>, status 400 with the message
    \<^verbatim>\<open>You already have a KYC submission in progress\<close> and \<^verbatim>\<open>canResubmit: false\<close>;
  \<^item> \<open>Created kycRecordId status submittedAt documentType\<close>, status 201;
  \<^item> \<open>SubmitFailed status message error errorType\<close>, the answer of the
    \<^verbatim>\<open>catch\<close> block of \<^verbatim>\<open>submitKYC\<close>.
\<close>

datatype response =
  ValidationFailed nat string "string list"
  | BadRequest string
  | InProgress kyc_status int string
  | Created string kyc_status int string
  | SubmitFailed nat string string string

fun join :: "string \<Rightarrow> string list \<Rightarrow> string" where
  "join sep [] = []"
| "join sep [x] = x"
| "join sep (x # y # ys) = x @ sep @ join sep (y # ys)"

text \<open>
  \<^verbatim>\<open>DOCUMENT_RULES\<close>. A number pattern is the set of strings the regular expression
  matches; every pattern is anchored at both ends and has no flag.
\<close>

record rules =
  numberPattern :: "string \<Rightarrow> bool"
  requiredFields :: "string list"
  maxFileSize :: nat
  allowedFormats :: "string list"

definition validTypes :: "string list" where
  "validTypes = [''aadhaar'', ''pan'', ''passport'', ''driving_license'', ''national_id'']"

definition DOCUMENT_RULES :: "string \<Rightarrow> rules" where
  "DOCUMENT_RULES t =
     \<lparr>numberPattern =
        (if t = ''aadhaar'' then (\<lambda>n. length n = 12 \<and> list_all is_digit n)
         else if t = ''pan'' then
           (\<lambda>n. length n = 10 \<and> list_all is_upper (take 5 n)
                \<and> list_all is_digit (take 4 (drop 5 n)) \<and> list_all is_upper (drop 9 n))
         else if t = ''passport'' then
           (\<lambda>n. length n = 8 \<and> list_all is_upper (take 1 n) \<and> list_all is_digit (drop 1 n))
         else if t = ''driving_license'' then
           (\<lambda>n. length n = 15 \<and> list_all is_upper (take 2 n) \<and> list_all is_digit (drop 2 n))
         else
           (\<lambda>n. 6 \<le> length n \<and> length n \<le> 20 \<and> list_all (\<lambda>c. is_upper c \<or> is_digit c) n)),
      requiredFields =
        (if t = ''passport'' \<or> t = ''driving_license'' then [''front'', ''back'', ''selfie'']
         else [''front'', ''selfie'']),
      maxFileSize = 5 * 1024 * 1024,
      allowedFormats = [''image/jpeg'', ''image/jpg'', ''image/png'']\<rparr>"

text \<open>
  \<^verbatim>\<open>path.extname\<close> of Node: from the last dot of the last path segment to the end,
  and empty when there is no dot, when the segment starts with its only dot, and for
  the segment \<^verbatim>\<open>..\<close>.
\<close>

definition extname :: "string \<Rightarrow> string" where
  "extname p =
     (let base = rev (takeWhile (\<lambda>c. c \<noteq> CHR ''/'') (rev p));
          ext = CHR ''.'' # rev (takeWhile (\<lambda>c. c \<noteq> CHR ''.'') (rev base))
      in if CHR ''.'' \<notin> set base \<or> length ext = length base \<or> base = ''..'' then [] else ext)"

text \<open>
  \<^verbatim>\<open>sanitizeFileMetadata\<close> keeps the characters \<^verbatim>\<open>[a-zA-Z0-9._-]\<close> of every
  \<^verbatim>\<open>originalname\<close>.
\<close>

definition is_lower :: "char \<Rightarrow> bool" where
  "is_lower c = (let n = (of_char c :: nat) in 97 \<le> n \<and> n \<le> 122)"

definition sanitizeFileMetadata :: "request \<Rightarrow> request" where
  "sanitizeFileMetadata req =
     req\<lparr>req_files :=
       map_option
         (map (\<lambda>(key, fileArray).
            (key, map (\<lambda>file. file\<lparr>originalname :=
                         filter (\<lambda>c. is_lower c \<or> is_upper c \<or> is_digit c
                                      \<or> c = CHR ''.'' \<or> c = CHR ''_'' \<or> c = CHR ''-'')
                           (originalname file)\<rparr>) fileArray)))
         (req_files req)\<rparr>"

text \<open>
  Validation 6, the loop over \<^verbatim>\<open>Object.entries(files)\<close>. \<^verbatim>\<open>fileArray[0]\<close> of an
  empty array is \<^verbatim>\<open>undefined\<close>, and reading its \<^verbatim>\<open>size\<close> throws a \<^verbatim>\<open>TypeError\<close>.
\<close>

fun check_files :: "string \<Rightarrow> (string \<times> uploaded_file list) list \<Rightarrow> string list
    \<Rightarrow> string list thrown" where
  "check_files t [] errs = Inr errs"
| "check_files t ((key, fileArray) # rest) errs =
     (case fileArray of
        [] \<Rightarrow> Inl (''Cannot read properties of undefined (reading '' @ [CHR 0x27] @ ''size''
                    @ [CHR 0x27] @ '')'')
      | file # others \<Rightarrow>
          check_files t rest
            (errs
             @ (if multer_size file > maxFileSize (DOCUMENT_RULES t)
                then [key @ '' exceeds maximum size of 5MB''] else [])
             @ (if mimetype file \<notin> set (allowedFormats (DOCUMENT_RULES t))
                then [key @ '' must be in one of these formats: ''
                        @ join '', '' (allowedFormats (DOCUMENT_RULES t))] else [])
             @ (if toLowerCase (extname (originalname file)) \<notin> set [''.jpg'', ''.jpeg'', ''.png'']
                then [key @ '' has invalid extension. Must be .jpg, .jpeg, or .png'']
                else [])))"

text \<open>
  Validation 5, the body of the loop over \<^verbatim>\<open>rules.requiredFields\<close>: the messages
  pushed for one field.
\<close>

definition required_file_error :: "string \<Rightarrow> (string \<times> uploaded_file list) list \<Rightarrow> string
    \<Rightarrow> string list" where
  "required_file_error t fls field =
     (case map_of fls (''documentImages['' @ field @ '']'') of
        None \<Rightarrow> [field @ '' image is required for '' @ t]
      | Some fileArray \<Rightarrow>
          if length fileArray = 0 then [field @ '' image is required for '' @ t] else [])"

text \<open>
  \<^verbatim>\<open>validateKYCSubmission(req, res, next)\<close>: \<open>None\<close> is the call of \<^verbatim>\<open>next()\<close>,
  \<open>Some r\<close> the response sent instead. The checks stand in the order of the source.
\<close>

definition validateKYCSubmission :: "request \<Rightarrow> response option" where
  "validateKYCSubmission req =
     (case body_documentType req of
        None \<Rightarrow> Some (ValidationFailed 400 ''Validation failed'' [''documentType is required''])
      | Some t \<Rightarrow>
     if t = [] then
        Some (ValidationFailed 400 ''Validation failed'' [''documentType is required''])
     else
     (case body_documentNumber req of
        None \<Rightarrow> Some (ValidationFailed 400 ''Validation failed'' [''documentNumber is required''])
      | Some n \<Rightarrow>
     if n = [] then
        Some (ValidationFailed 400 ''Validation failed'' [''documentNumber is required''])
     else if t \<notin> set validTypes then
        Some (ValidationFailed 400 ''Validation failed''
          [''Invalid documentType '' @ [CHR 0x22] @ t @ [CHR 0x22] @ ''. Must be one of: ''
             @ join '', '' validTypes])
     else if \<not> numberPattern (DOCUMENT_RULES t) n then
        Some (ValidationFailed 400 ''Validation failed'' [''Invalid '' @ t @ '' number format''])
     else
     (case req_files req of
        None \<Rightarrow> Some (ValidationFailed 400 ''Validation failed'' [''No files uploaded''])
      | Some fls \<Rightarrow>
     if fls = [] then
        Some (ValidationFailed 400 ''Validation failed'' [''No files uploaded''])
     else
       let missing = concat (map (required_file_error t fls) (requiredFields (DOCUMENT_RULES t)))
       in if missing \<noteq> [] then
            Some (ValidationFailed 400 ''Validation failed'' missing)
          else
            (case check_files t fls [] of
               Inl message \<Rightarrow> Some (ValidationFailed 500 ''Validation error'' [message])
             | Inr errs \<Rightarrow>
                 if errs \<noteq> [] then Some (ValidationFailed 400 ''File validation failed'' errs)
                 else None))))"

text \<open>A required image is missing: the field has no entry in \<^verbatim>\<open>req.files\<close>, or an empty one.\<close>

definition file_missing :: "request \<Rightarrow> string \<Rightarrow> bool" where
  "file_missing req field =
     (case req_files req of
        None \<Rightarrow> True
      | Some fls \<Rightarrow>
          (case map_of fls (''documentImages['' @ field @ '']'') of
             None \<Rightarrow> True
           | Some fileArray \<Rightarrow> fileArray = []))"


section \<open>Submission (backend/src/controllers/kycController.js, submitKYC)\<close>

text \<open>
  The update with which \<^verbatim>\<open>submitKYC\<close> fails a stuck record. \<^verbatim>\<open>elapsedMinutes\<close> is
  \<^verbatim>\<open>(now - submittedAt) / 60000\<close>; \<^verbatim>\<open>toFixed(0)\<close> rounds it to the nearest integer,
  a half upwards. The update is only made for more than ten minutes, so the
  milliseconds are positive.
\<close>

definition minutes_toFixed0 :: "int \<Rightarrow> string" where
  "minutes_toFixed0 elapsed_ms = decimal (nat ((elapsed_ms + 30000) div 60000))"

definition auto_fail_stuck :: "int \<Rightarrow> int \<Rightarrow> kyc_record \<Rightarrow> kyc_record" where
  "auto_fail_stuck elapsed_ms now r =
     r\<lparr>status := rejected,
       aiVerification := (aiVerification r)
         \<lparr>aiv_status := failed,
          errors := [''Processing timeout - verification took too long'']\<rparr>,
       rejectionReason := Some (''AI verification timeout after '' @ minutes_toFixed0 elapsed_ms
                                  @ '' minutes. Please resubmit.''),
       completedAt := Some now\<rparr>"

text \<open>
  \<^verbatim>\<open>KYCRecord.create\<close>: the schema validates the new document. The only field of
  the document that the controller does not compute itself and that the schema
  restricts is \<^verbatim>\<open>documentType\<close>, an enum; Mongoose throws a \<^verbatim>\<open>ValidationError\<close>
  with these messages.
\<close>

definition schema_documentTypes :: "string list" where
  "schema_documentTypes = [''passport'', ''driving_license'', ''national_id'', ''aadhaar'']"

definition enum_message :: "string \<Rightarrow> string" where
  "enum_message t = [CHR 0x60] @ t @ [CHR 0x60] @ '' is not a valid enum value for path ''
                    @ [CHR 0x60] @ ''documentType'' @ [CHR 0x60] @ ''.''"

text \<open>
  \<^verbatim>\<open>files[key][0].path\<close>: the array is there, but may be empty, and then reading
  \<^verbatim>\<open>path\<close> throws a \<^verbatim>\<open>TypeError\<close>.
\<close>

definition first_path :: "uploaded_file list \<Rightarrow> string thrown" where
  "first_path fileArray =
     (case fileArray of
        [] \<Rightarrow> Inl (''Cannot read properties of undefined (reading '' @ [CHR 0x27] @ ''path''
                    @ [CHR 0x27] @ '')'')
      | file # others \<Rightarrow> Inr (multer_path file))"

text \<open>
  The second half of \<^verbatim>\<open>submitKYC\<close>, from \<^verbatim>\<open>Build document images object\<close> to the
  response: the paths, the hashes, the new record, the user's status, the start of the
  background pipeline. \<open>sha256\<close> is the digest function, \<open>fs\<close> the files on disk,
  \<open>new_id\<close> the identifier the database gives the new document, \<open>now\<close> the clock;
  \<open>frontFiles\<close> and \<open>selfieFiles\<close> are \<^verbatim>\<open>files['documentImages[front]']\<close> and
  \<^verbatim>\<open>files['documentImages[selfie]']\<close>. Every \<^verbatim>\<open>throw\<close> ends in the \<^verbatim>\<open>catch\<close> block
  of \<^verbatim>\<open>submitKYC\<close>, whose answer is \<open>SubmitFailed\<close>.
\<close>

definition submitKYC_accept :: "hash_fn \<Rightarrow> (string \<rightharpoonup> string) \<Rightarrow> string \<Rightarrow> int \<Rightarrow> request
    \<Rightarrow> string \<Rightarrow> string \<Rightarrow> uploaded_file list \<Rightarrow> uploaded_file list
    \<Rightarrow> uploaded_file list option \<Rightarrow> world \<Rightarrow> response \<times> world" where
  "submitKYC_accept sha256 fs new_id now req t n frontFiles selfieFiles backFiles w =
     (case and_then (first_path frontFiles) (\<lambda>f.
           and_then (first_path selfieFiles) (\<lambda>s.
           (case backFiles of
              None \<Rightarrow> Inr (f, s, None)
            | Some files_back \<Rightarrow> and_then (first_path files_back) (\<lambda>b. Inr (f, s, Some b))))) of
        Inl message \<Rightarrow> (SubmitFailed 500 ''Failed to submit KYC'' message ''TypeError'', w)
      | Inr (f, s, b) \<Rightarrow>
     (case and_then (readFileSync fs f) (\<lambda>buffer_front.
           and_then (readFileSync fs s) (\<lambda>buffer_selfie.
           (case b of
              None \<Rightarrow> Inr (hashFile sha256 buffer_front, hashFile sha256 buffer_selfie, None)
            | Some path_back \<Rightarrow>
                and_then (readFileSync fs path_back) (\<lambda>buffer_back.
                  Inr (hashFile sha256 buffer_front, hashFile sha256 buffer_selfie,
                       Some (hashFile sha256 buffer_back)))))) of
        Inl message \<Rightarrow>
          (SubmitFailed 500 ''Failed to submit KYC'' (''File hashing failed: '' @ message)
             ''Error'', w)
      | Inr (hash_front, hash_selfie, hash_back) \<Rightarrow>
     if t \<notin> set schema_documentTypes then
       (SubmitFailed 400 (''Validation failed: '' @ enum_message t)
          (''KYCRecord validation failed: documentType: '' @ enum_message t)
          ''ValidationError'', w)
     else
       let images = \<lparr>front = Some f, back_side = b, selfie = Some s\<rparr>;
           kycRecord =
             \<lparr>rec_id = new_id, userId = req_user_id req, documentType = t,
              documentNumber = n,
              documentNumberHash = Some (hashDocumentNumber sha256 n t),
              userIdHash = Some (hashUserId sha256 (req_user_id req)),
              fileHashes = \<lparr>front = Some hash_front, back_side = hash_back,
                              selfie = Some hash_selfie\<rparr>,
              merkleRoot = Some (createMerkleRoot sha256
                (Some ([hash_front, hash_selfie]
                       @ (case hash_back of None \<Rightarrow> [] | Some h \<Rightarrow> [h])))),
              documentImages = images,
              ipfsStorage = default_ipfsStorage,
              aiVerification = default_aiVerification,
              ariesCredential = default_ariesCredential,
              blockchainVerification = default_blockchainVerification,
              status = submitted, rejectionReason = None, submittedAt = now,
              completedAt = None,
              metadata_of = \<lparr>ipAddress = req_ip req, userAgent = req_userAgent req\<rparr>\<rparr>;
           w1 = w\<lparr>kycRecords := kycRecords w @ [kycRecord]\<rparr>;
           w2 = User_findByIdAndUpdate (req_user_id req)
                  (\<lambda>u. u\<lparr>kycStatus := kyc_in_progress, kycRecordId := Some new_id\<rparr>) w1;
           w3 = w2\<lparr>started := started w2 @
                  [\<lparr>call_kycRecordId = new_id, call_documentImages = images,
                    call_documentType = t, call_documentNumber = n\<rparr>]\<rparr>
       in (Created new_id submitted now t, w3)))"

text \<open>
  \<^verbatim>\<open>submitKYC(req, res)\<close>: the two input checks, the query for a submission in
  progress with the ten-minute rule, then the second half. \<^verbatim>\<open>!documentType\<close> holds
  for an absent field and for the empty string; an array of files, even an empty one,
  is truthy.
\<close>

definition submitKYC :: "hash_fn \<Rightarrow> (string \<rightharpoonup> string) \<Rightarrow> string \<Rightarrow> int \<Rightarrow> request \<Rightarrow> world
    \<Rightarrow> response \<times> world" where
  "submitKYC sha256 fs new_id now req w =
     (case (body_documentType req, body_documentNumber req) of
        (Some t, Some n) \<Rightarrow>
          if t = [] \<or> n = [] then (BadRequest ''Please provide document type and number'', w)
          else
            (case req_files req of
               None \<Rightarrow> (BadRequest ''Please upload ID front image and selfie'', w)
             | Some fls \<Rightarrow>
            (case (map_of fls ''documentImages[front]'', map_of fls ''documentImages[selfie]'') of
               (Some frontFiles, Some selfieFiles) \<Rightarrow>
                 (case KYCRecord_findOne_in_progress (req_user_id req) w of
                    None \<Rightarrow>
                      submitKYC_accept sha256 fs new_id now req t n frontFiles selfieFiles
                        (map_of fls ''documentImages[back]'') w
                  | Some existingKYC \<Rightarrow>
                      let elapsed_ms = now - submittedAt existingKYC in
                      if status existingKYC = ai_processing \<and> elapsed_ms > 10 * 60000 then
                        submitKYC_accept sha256 fs new_id now req t n frontFiles selfieFiles
                          (map_of fls ''documentImages[back]'')
                          (KYCRecord_findByIdAndUpdate (rec_id existingKYC)
                             (auto_fail_stuck elapsed_ms now) w)
                      else
                        (InProgress (status existingKYC) (submittedAt existingKYC)
                           (rec_id existingKYC), w))
             | _ \<Rightarrow> (BadRequest ''Please upload ID front image and selfie'', w)))
      | _ \<Rightarrow> (BadRequest ''Please provide document type and number'', w))"

text \<open>
  The uploads can be hashed: each array of files that is there has a first file, and
  the file is on disk.
\<close>

definition first_readable :: "(string \<rightharpoonup> string) \<Rightarrow> uploaded_file list \<Rightarrow> bool" where
  "first_readable fs fileArray =
     (case fileArray of [] \<Rightarrow> False | file # others \<Rightarrow> fs (multer_path file) \<noteq> None)"

definition uploads_readable :: "(string \<rightharpoonup> string) \<Rightarrow> uploaded_file list \<Rightarrow> uploaded_file list
    \<Rightarrow> uploaded_file list option \<Rightarrow> bool" where
  "uploads_readable fs frontFiles selfieFiles backFiles =
     (first_readable fs frontFiles \<and> first_readable fs selfieFiles
      \<and> (case backFiles of None \<Rightarrow> True | Some files_back \<Rightarrow> first_readable fs files_back))"

text \<open>
  The route \<^verbatim>\<open>router.post('/submit', protect, uploadKYCDocuments, sanitizeFileMetadata,
  validateKYCSubmission, submitKYC)\<close> of kycRoutes.js, from the request that
  \<^verbatim>\<open>protect\<close> and \<^verbatim>\<open>uploadKYCDocuments\<close> have let through: the controller runs only
  when the validation has called \<^verbatim>\<open>next()\<close>.
\<close>

definition post_submit :: "hash_fn \<Rightarrow> (string \<rightharpoonup> string) \<Rightarrow> string \<Rightarrow> int \<Rightarrow> request \<Rightarrow> world
    \<Rightarrow> response \<times> world" where
  "post_submit sha256 fs new_id now req w =
     (let req' = sanitizeFileMetadata req in
      case validateKYCSubmission req' of
        Some r \<Rightarrow> (r, w)
      | None \<Rightarrow> submitKYC sha256 fs new_id now req' w)"


section \<open>Ledger client (backend/src/utils/blockchainClient.js)\<close>

text \<open>
  The object \<^verbatim>\<open>blockchainData\<close> that \<^verbatim>\<open>registerOnBlockchain\<close> builds and hands to
  \<^verbatim>\<open>registerKYCOnBlockchain\<close>, key by key.
\<close>

record blockchain_data =
  bd_documentType :: string
  bd_documentNumber :: string
  bd_documentNumberHash :: "string option"
  bd_userIdHash :: "string option"
  bd_fileHashes :: slots
  bd_merkleRoot :: "string option"
  bd_aiConfidence :: "real option"
  bd_faceMatchScore :: "real option"
  bd_ipfsCIDs :: "slots option"

text \<open>The object \<^verbatim>\<open>hashData\<close> whose JSON text the client hashes.\<close>

record hash_data =
  hd_userIdHash :: string
  hd_documentNumberHash :: "string option"
  hd_documentType :: string
  hd_timestamp :: int
  hd_aiConfidence :: real
  hd_faceMatchScore :: real
  hd_ipfs :: "slots option"
  hd_fileHashes :: "slots option"
  hd_merkleRoot :: "string option"

record chain_error =
  err_code :: "string option"
  err_message :: string

record receipt =
  receipt_hash :: string
  receipt_blockNumber :: nat
  receipt_gasUsed :: nat

record blockchain_result =
  br_transactionHash :: string
  br_blockNumber :: nat
  br_verificationHash :: string
  br_gasUsed :: string

text \<open>
  What the background pipeline calls outside the repository's own logic: the content
  store, the AI service (\<^verbatim>\<open>verifyDocuments\<close>, an HTTP call), the Aries agent, the
  chain (\<^verbatim>\<open>initializeBlockchain\<close> fails with an error or not, \<^verbatim>\<open>keccak256\<close> of the
  JSON text of \<open>hashData\<close>, the contract call \<^verbatim>\<open>registerVerification\<close> with the wait
  for its receipt), the environment variables and \<^verbatim>\<open>Date.prototype.toISOString\<close>.
  The one digest function of the process is \<open>sha256_hex\<close> of the content store's
  environment. The performance tracker and the debug logger only write logs and catch
  their own errors; they are left out.
\<close>

record ai_result =
  res_verified :: bool
  res_confidenceScore :: real
  res_faceMatchScore :: real
  res_ocrData :: ocr_data
  res_errors :: "string list"

record services =
  ipfs :: ipfs_env
  DUMMY_AI_VERIFICATION :: "string option"
  verifyDocuments :: "slots \<Rightarrow> string \<Rightarrow> string \<Rightarrow> ai_result thrown"
  SKIP_ARIES_CREDENTIAL :: "string option"
  NODE_ENV :: "string option"
  createConnectionInvitation :: "unit thrown"
  initializeBlockchain :: "chain_error option"
  keccak256_json :: "hash_data \<Rightarrow> string"
  registerVerification :: "string \<Rightarrow> string \<Rightarrow> string \<Rightarrow> chain_error + receipt"
  toISOString :: "int \<Rightarrow> string"

text \<open>\<^verbatim>\<open>value || fallback\<close> on a string that may be absent, and on a number.\<close>

definition string_or :: "string option \<Rightarrow> string \<Rightarrow> string" where
  "string_or v fallback = (case v of None \<Rightarrow> fallback | Some s \<Rightarrow> if s = [] then fallback else s)"

definition number_or_zero :: "real option \<Rightarrow> real" where
  "number_or_zero v = (case v of None \<Rightarrow> 0 | Some x \<Rightarrow> x)"

definition truthy_string :: "string option \<Rightarrow> bool" where
  "truthy_string v = (case v of None \<Rightarrow> False | Some s \<Rightarrow> s \<noteq> [])"

definition build_hashData :: "services \<Rightarrow> int \<Rightarrow> string \<Rightarrow> blockchain_data \<Rightarrow> hash_data" where
  "build_hashData svc now uid verificationData =
     \<lparr>hd_userIdHash = string_or (bd_userIdHash verificationData)
                        (hashUserId (sha256_hex (ipfs svc)) uid),
      hd_documentNumberHash = bd_documentNumberHash verificationData,
      hd_documentType = bd_documentType verificationData,
      hd_timestamp = now,
      hd_aiConfidence = number_or_zero (bd_aiConfidence verificationData),
      hd_faceMatchScore = number_or_zero (bd_faceMatchScore verificationData),
      hd_ipfs = bd_ipfsCIDs verificationData,
      hd_fileHashes = Some (bd_fileHashes verificationData),
      hd_merkleRoot = (if truthy_string (bd_merkleRoot verificationData)
                       then bd_merkleRoot verificationData else None)\<rparr>"

text \<open>
  \<^verbatim>\<open>registerKYCOnBlockchain(userId, verificationData)\<close>. Every error of the
  \<^verbatim>\<open>try\<close> block is thrown again as a new \<^verbatim>\<open>Error\<close>, with a message that depends on
  \<^verbatim>\<open>error.code\<close>.
\<close>

definition registerKYCOnBlockchain :: "services \<Rightarrow> int \<Rightarrow> string \<Rightarrow> blockchain_data
    \<Rightarrow> blockchain_result thrown" where
  "registerKYCOnBlockchain svc now uid verificationData =
     (case (case initializeBlockchain svc of
              Some e \<Rightarrow> Inl e
            | None \<Rightarrow>
                let hashData = build_hashData svc now uid verificationData;
                    hash_hex = keccak256_json svc hashData
                in (case registerVerification svc hash_hex uid
                          (if bd_documentType verificationData = [] then ''national_id''
                           else bd_documentType verificationData) of
                      Inl e \<Rightarrow> Inl e
                    | Inr rc \<Rightarrow>
                        Inr \<lparr>br_transactionHash = receipt_hash rc,
                             br_blockNumber = receipt_blockNumber rc,
                             br_verificationHash = hash_hex,
                             br_gasUsed = decimal (receipt_gasUsed rc)\<rparr>)) of
        Inl e \<Rightarrow>
          if err_code e = Some ''NETWORK_ERROR'' then Inl ''Blockchain network is not reachable''
          else Inl (''Blockchain error: '' @ err_message e)
      | Inr result \<Rightarrow> Inr result)"


section \<open>Background pipeline (kycController.js)\<close>

text \<open>
  A run of the pipeline is the list of the states it goes through, one after each
  write to the database and each change of the timer, in the order of the writes; the
  last state is the state the run ends in. Between two of these states the task is
  suspended at an \<^verbatim>\<open>await\<close>, and the timer's handler may run. One clock reading
  \<open>now\<close> stands for the instants of a run.
\<close>

definition null_property :: "string \<Rightarrow> string" where
  "null_property key =
     ''Cannot read properties of null (reading '' @ [CHR 0x27] @ key @ [CHR 0x27] @ '')''"

text \<open>
  \<^verbatim>\<open>setTimeout(..., 5 * 60 * 1000)\<close> and \<^verbatim>\<open>clearTimeout(timeoutId)\<close>. A pipeline
  has one timer, named here by the record of the pipeline; clearing a timer that is
  not pending does nothing.
\<close>

definition setTimeout_5min :: "string \<Rightarrow> world \<Rightarrow> world" where
  "setTimeout_5min record_id w = w\<lparr>timers := record_id # timers w\<rparr>"

definition clearTimeout :: "string \<Rightarrow> world \<Rightarrow> world" where
  "clearTimeout record_id w = w\<lparr>timers := removeAll record_id (timers w)\<rparr>"

text \<open>
  The handler of the timer. It runs when the timer fires, which takes the timer off
  the pending ones; its \<^verbatim>\<open>try\<close> block first writes the record, then reads it back
  with the user and writes the user; a user that is gone makes the read of
  \<^verbatim>\<open>userId._id\<close> throw, which the handler's own \<^verbatim>\<open>catch\<close> logs.
\<close>

definition timeout_update :: "int \<Rightarrow> kyc_record \<Rightarrow> kyc_record" where
  "timeout_update now r =
     r\<lparr>status := rejected,
       aiVerification := (aiVerification r)
         \<lparr>aiv_status := failed,
          errors := [''Processing timeout - AI verification exceeded maximum time limit'']\<rparr>,
       rejectionReason := Some (''AI verification timeout. The verification process took ''
         @ ''too long. Please try again with clearer images.''),
       completedAt := Some now\<rparr>"

definition timeout_handler :: "int \<Rightarrow> string \<Rightarrow> world \<Rightarrow> world list" where
  "timeout_handler now record_id w =
     (let w1 = KYCRecord_findByIdAndUpdate record_id (timeout_update now)
                 (clearTimeout record_id w)
      in case KYCRecord_findById record_id w1 of
           None \<Rightarrow> [w1]
         | Some kycRecord \<Rightarrow>
             (case User_findById (userId kycRecord) w1 of
                None \<Rightarrow> [w1]
              | Some u \<Rightarrow>
                  [w1, User_findByIdAndUpdate (user_id u) (\<lambda>u. u\<lparr>kycStatus := kyc_rejected\<rparr>) w1]))"

text \<open>\<^verbatim>\<open>registerOnBlockchain(kycRecordId)\<close>.\<close>

definition blockchainData :: "kyc_record \<Rightarrow> blockchain_data" where
  "blockchainData kycRecord =
     \<lparr>bd_documentType = documentType kycRecord,
      bd_documentNumber = documentNumber kycRecord,
      bd_documentNumberHash = documentNumberHash kycRecord,
      bd_userIdHash = userIdHash kycRecord,
      bd_fileHashes = fileHashes kycRecord,
      bd_merkleRoot = merkleRoot kycRecord,
      bd_aiConfidence = confidenceScore (aiVerification kycRecord),
      bd_faceMatchScore = faceMatchScore (aiVerification kycRecord),
      bd_ipfsCIDs =
        (if enabled (ipfsStorage kycRecord)
         then Some \<lparr>front = frontCID (ipfsStorage kycRecord),
                    back_side = backCID (ipfsStorage kycRecord),
                    selfie = selfieCID (ipfsStorage kycRecord)\<rparr>
         else None)\<rparr>"

definition ledger_failed_update :: "string \<Rightarrow> kyc_record \<Rightarrow> kyc_record" where
  "ledger_failed_update message r =
     r\<lparr>status := credential_issued,
       rejectionReason := Some (''Blockchain registration failed: '' @ message)\<rparr>"

definition ledger_completed_update :: "blockchain_result \<Rightarrow> int \<Rightarrow> kyc_record \<Rightarrow> kyc_record" where
  "ledger_completed_update blockchainResult now r =
     r\<lparr>status := completed,
       blockchainVerification := (blockchainVerification r)
         \<lparr>transactionHash := Some (br_transactionHash blockchainResult),
          blockNumber := Some (br_blockNumber blockchainResult),
          verificationHash := Some (br_verificationHash blockchainResult),
          registeredAt := Some now\<rparr>,
       completedAt := Some now\<rparr>"

definition registerOnBlockchain :: "services \<Rightarrow> int \<Rightarrow> string \<Rightarrow> world \<Rightarrow> world list" where
  "registerOnBlockchain svc now record_id w =
     (case (case KYCRecord_findById record_id w of
              None \<Rightarrow> Inl (null_property ''documentType'')
            | Some kycRecord \<Rightarrow>
                (case User_findById (userId kycRecord) w of
                   None \<Rightarrow> Inl (null_property ''_id'')
                 | Some u \<Rightarrow>
                     and_then
                       (registerKYCOnBlockchain svc now (user_id u) (blockchainData kycRecord))
                       (\<lambda>blockchainResult. Inr (u, blockchainResult)))) of
        Inr (u, blockchainResult) \<Rightarrow>
          (let w1 = KYCRecord_findByIdAndUpdate record_id
                      (ledger_completed_update blockchainResult now) w
           in [w1, User_findByIdAndUpdate (user_id u) (\<lambda>u. u\<lparr>kycStatus := kyc_verified\<rparr>) w1])
      | Inl message \<Rightarrow>
          [KYCRecord_findByIdAndUpdate record_id (ledger_failed_update message) w])"

text \<open>
  \<^verbatim>\<open>issueAriesCredential(kycRecord)\<close>, called with the document that the update of the
  AI stage returned and its populated user (absent when the user is gone).
\<close>

definition credential_update :: "int \<Rightarrow> credential_data option \<Rightarrow> kyc_record \<Rightarrow> kyc_record" where
  "credential_update now data r =
     r\<lparr>status := credential_issued,
       ariesCredential := (ariesCredential r)
         \<lparr>credentialId := Some (''cred-'' @ decimal (nat now)),
          credentialExchangeId := Some (''cred-ex-'' @ decimal (nat now)),
          issuedAt := Some now,
          credentialData := (case data of None \<Rightarrow> credentialData (ariesCredential r)
                             | Some d \<Rightarrow> Some d)\<rparr>\<rparr>"

definition issueAriesCredential :: "services \<Rightarrow> int \<Rightarrow> kyc_record \<Rightarrow> user option \<Rightarrow> world
    \<Rightarrow> world list" where
  "issueAriesCredential svc now kycRecord populated w =
     (let skipAries = (SKIP_ARIES_CREDENTIAL svc = Some ''true''
                       \<or> NODE_ENV svc = Some ''development'');
          data = (case populated of
                    None \<Rightarrow> Inl (null_property ''fullName'')
                  | Some u \<Rightarrow>
                      Inr \<lparr>cd_fullName = fullName u, cd_documentType = documentType kycRecord,
                           cd_documentNumber = documentNumber kycRecord\<rparr>)
      in case (if skipAries then data
               else and_then (createConnectionInvitation svc) (\<lambda>invitation. data)) of
           Inr credentialData_new \<Rightarrow>
             (let w1 = KYCRecord_findByIdAndUpdate (rec_id kycRecord)
                         (credential_update now (Some credentialData_new)) w
              in w1 # registerOnBlockchain svc now (rec_id kycRecord) w1)
         | Inl message \<Rightarrow>
             if NODE_ENV svc = Some ''development'' then
               (let w1 = KYCRecord_findByIdAndUpdate (rec_id kycRecord)
                           (credential_update now None) w
                in w1 # registerOnBlockchain svc now (rec_id kycRecord) w1)
             else
               [KYCRecord_findByIdAndUpdate (rec_id kycRecord)
                  (\<lambda>r. r\<lparr>status := ai_verified,
                         rejectionReason := Some (''Credential issuance failed: '' @ message)\<rparr>)
                  w])"

text \<open>\<^verbatim>\<open>performDummyAIVerification\<close> and \<^verbatim>\<open>isDummyModeEnabled\<close> of dummyAiVerifier.js.\<close>

definition performDummyAIVerification :: "slots \<Rightarrow> string \<Rightarrow> string \<Rightarrow> ai_result" where
  "performDummyAIVerification images t n =
     \<lparr>res_verified = True, res_confidenceScore = 955 / 1000, res_faceMatchScore = 923 / 1000,
      res_ocrData = OcrDummy t n ''Test User'', res_errors = []\<rparr>"

definition isDummyModeEnabled :: "services \<Rightarrow> bool" where
  "isDummyModeEnabled svc =
     (DUMMY_AI_VERIFICATION svc = Some ''true'' \<or> DUMMY_AI_VERIFICATION svc = Some ''1''
      \<or> DUMMY_AI_VERIFICATION svc = Some ''yes'')"

definition getIPFSGatewayUrl :: "string option \<Rightarrow> string option" where
  "getIPFSGatewayUrl c =
     (case c of
        None \<Rightarrow> None
      | Some s \<Rightarrow> if s = [] then None else Some (''https://gateway.pinata.cloud/ipfs/'' @ s))"

text \<open>
  \<^verbatim>\<open>updateData\<close>, the update with the AI results and the content identifiers;
  \<open>ipfs_front\<close>, \<open>ipfs_back\<close> and \<open>ipfs_selfie\<close> are the three entries of
  \<^verbatim>\<open>ipfsData\<close>, absent when \<^verbatim>\<open>find\<close> found none.
\<close>

definition entry_field :: "(ipfs_entry \<Rightarrow> string option) \<Rightarrow> ipfs_entry option \<Rightarrow> string option" where
  "entry_field get e = (case e of None \<Rightarrow> None | Some x \<Rightarrow> get x)"

definition updateData :: "ai_result \<Rightarrow> ipfs_entry option \<Rightarrow> ipfs_entry option
    \<Rightarrow> ipfs_entry option \<Rightarrow> int \<Rightarrow> kyc_record \<Rightarrow> kyc_record" where
  "updateData aiResult ipfs_front ipfs_back ipfs_selfie now r =
     r\<lparr>status := (if res_verified aiResult then ai_verified else rejected),
       aiVerification :=
         \<lparr>aiv_status = (if res_verified aiResult then verified else failed),
          confidenceScore = Some (res_confidenceScore aiResult),
          faceMatchScore = Some (res_faceMatchScore aiResult),
          ocrData = Some (res_ocrData aiResult),
          verifiedAt = Some now,
          errors = res_errors aiResult,
          steps = \<lparr>qualityCheck = step_completed, tamperingDetection = step_completed,
                   ocrExtraction = step_completed, documentValidation = step_completed,
                   faceMatching = step_completed, finalDecision = step_completed\<rparr>\<rparr>,
       rejectionReason := (if res_verified aiResult then None
                           else Some ''AI verification failed''),
       ipfsStorage :=
         \<lparr>enabled = truthy_string (entry_field entry_cid ipfs_front),
          frontCID = entry_field entry_cid ipfs_front,
          backCID = entry_field entry_cid ipfs_back,
          selfieCID = entry_field entry_cid ipfs_selfie,
          frontHash = entry_field entry_fileHash ipfs_front,
          backHash = entry_field entry_fileHash ipfs_back,
          selfieHash = entry_field entry_fileHash ipfs_selfie,
          ipfs_provider = entry_field entry_provider ipfs_front,
          uploadedAt = Some now,
          gatewayUrls =
            \<lparr>front = getIPFSGatewayUrl (entry_field entry_cid ipfs_front),
             back_side = getIPFSGatewayUrl (entry_field entry_cid ipfs_back),
             selfie = getIPFSGatewayUrl (entry_field entry_cid ipfs_selfie)\<rparr>\<rparr>\<rparr>"

text \<open>The \<^verbatim>\<open>catch\<close> block of \<^verbatim>\<open>processAIVerification\<close>.\<close>

definition ai_error_update :: "string \<Rightarrow> kyc_record \<Rightarrow> kyc_record" where
  "ai_error_update message r =
     r\<lparr>status := rejected,
       aiVerification := (aiVerification r)\<lparr>aiv_status := failed, errors := [message]\<rparr>,
       rejectionReason := Some (''AI verification error: '' @ message)\<rparr>"

definition processAIVerification_catch :: "string \<Rightarrow> string \<Rightarrow> world \<Rightarrow> world list" where
  "processAIVerification_catch record_id message w =
     [clearTimeout record_id w,
      KYCRecord_findByIdAndUpdate record_id (ai_error_update message)
        (clearTimeout record_id w)]"

text \<open>\<^verbatim>\<open>if (documentImages.front) filesToUpload.push(documentImages.front)\<close>.\<close>

definition push_if_truthy :: "string option \<Rightarrow> string list" where
  "push_if_truthy v = (case v of None \<Rightarrow> [] | Some s \<Rightarrow> if s = [] then [] else [s])"

text \<open>
  The end of the \<^verbatim>\<open>try\<close> block of \<^verbatim>\<open>processAIVerification\<close>, after the write of
  \<^verbatim>\<open>updateData\<close>: \<^verbatim>\<open>if (aiResult.verified) { ... } else { ... }\<close>. Both branches
  clear the timer first. \<open>w\<close> is the state after the write; the document the write
  returned is read from it, with its user.
\<close>

definition processAIVerification_decision :: "services \<Rightarrow> int \<Rightarrow> string \<Rightarrow> ai_result \<Rightarrow> world
    \<Rightarrow> world list" where
  "processAIVerification_decision svc now record_id aiResult w =
     (let w4 = clearTimeout record_id w
      in case KYCRecord_findById record_id w of
           None \<Rightarrow>
             w4 # processAIVerification_catch record_id
                    (null_property (if res_verified aiResult then ''_id'' else ''userId'')) w4
         | Some kycRecord \<Rightarrow>
             if res_verified aiResult then
               w4 # issueAriesCredential svc now kycRecord (User_findById (userId kycRecord) w) w4
             else
               (case User_findById (userId kycRecord) w of
                  None \<Rightarrow> w4 # processAIVerification_catch record_id (null_property ''_id'') w4
                | Some u \<Rightarrow>
                    [w4, User_findByIdAndUpdate (user_id u) (\<lambda>u. u\<lparr>kycStatus := kyc_rejected\<rparr>)
                           w4]))"

text \<open>
  \<^verbatim>\<open>processAIVerification(kycRecordId, documentImages, documentType, documentNumber)\<close>:
  the timer is set, the status becomes \<open>ai_processing\<close>, the files are uploaded, the
  AI service (or its dummy) is called, its result is written, and the decision above
  follows. An error thrown on the way ends in the \<^verbatim>\<open>catch\<close> block.
\<close>

definition processAIVerification :: "services \<Rightarrow> int \<Rightarrow> string \<Rightarrow> slots \<Rightarrow> string \<Rightarrow> string
    \<Rightarrow> world \<Rightarrow> world list" where
  "processAIVerification svc now record_id images t n w =
     (let w0 = setTimeout_5min record_id w;
          w1 = KYCRecord_findByIdAndUpdate record_id
                 (\<lambda>r. r\<lparr>status := ai_processing,
                        aiVerification := (aiVerification r)\<lparr>aiv_status := processing\<rparr>\<rparr>) w0
      in case uploadMultipleToIPFS (ipfs svc)
                (push_if_truthy (front images) @ push_if_truthy (back_side images)
                 @ push_if_truthy (selfie images))
                [(''kycRecordId'', record_id), (''documentType'', t),
                 (''uploadedAt'', toISOString svc now)] of
           Inl message \<Rightarrow> [w0, w1] @ processAIVerification_catch record_id message w1
         | Inr ipfsResults \<Rightarrow>
     (let ipfs_front = find (\<lambda>e. Some (filePath e) = front images) ipfsResults;
          ipfs_back = find (\<lambda>e. Some (filePath e) = back_side images) ipfsResults;
          ipfs_selfie = find (\<lambda>e. Some (filePath e) = selfie images) ipfsResults;
          w2 = KYCRecord_findByIdAndUpdate record_id
                 (\<lambda>r. r\<lparr>status := ai_processing,
                        aiVerification := (aiVerification r)
                          \<lparr>aiv_status := processing,
                           steps := (steps (aiVerification r))
                             \<lparr>qualityCheck := step_processing\<rparr>\<rparr>\<rparr>) w1
      in case (if isDummyModeEnabled svc then Inr (performDummyAIVerification images t n)
               else verifyDocuments svc images t n) of
           Inl message \<Rightarrow> [w0, w1, w2] @ processAIVerification_catch record_id message w2
         | Inr aiResult \<Rightarrow>
             (let w3 = KYCRecord_findByIdAndUpdate record_id
                         (updateData aiResult ipfs_front ipfs_back ipfs_selfie now) w2
              in [w0, w1, w2, w3] @ processAIVerification_decision svc now record_id aiResult w3)))"

text \<open>The status of a record in a state, and whether its timer is pending.\<close>

definition status_of :: "string \<Rightarrow> world \<Rightarrow> kyc_status option" where
  "status_of record_id w = map_option status (KYCRecord_findById record_id w)"

definition timer_pending :: "string \<Rightarrow> world \<Rightarrow> bool" where
  "timer_pending record_id w = (record_id \<in> set (timers w))"


section \<open>Example inputs\<close>

definition example_ipfs_env :: ipfs_env where
  "example_ipfs_env =
     \<lparr>ENABLE_IPFS = True, FALLBACK_TO_LOCAL = False, IPFS_PROVIDER = ''Pinata'',
      sha256_hex = (\<lambda>s. CHR ''#'' # s),
      files = [''/up/a.png'' \<mapsto> ''A'', ''/up/c.png'' \<mapsto> ''C''],
      uploadToPinata = (\<lambda>path metadata.
         Inr \<lparr>pa_cid = ''cid:'' @ path, pa_size = 1, pa_timestamp = ''t''\<rparr>),
      uploadToInfura = (\<lambda>path metadata. Inl ''Infura IPFS credentials not configured''),
      uploadToLocalIPFS = (\<lambda>path metadata. Inl ''connect ECONNREFUSED'')\<rparr>"

definition example_file :: "string \<Rightarrow> uploaded_file" where
  "example_file p =
     \<lparr>multer_path = p, multer_size = 204800, mimetype = ''image/jpeg'',
      originalname = ''scan.jpg''\<rparr>"

definition example_request :: "string \<Rightarrow> string \<Rightarrow> request" where
  "example_request t n =
     \<lparr>req_user_id = ''u1'', body_documentType = Some t, body_documentNumber = Some n,
      req_files = Some [(''documentImages[front]'', [example_file ''/up/a.png'']),
                        (''documentImages[selfie]'', [example_file ''/up/c.png''])],
      req_ip = None, req_userAgent = None\<rparr>"

definition example_record :: "string \<Rightarrow> kyc_status \<Rightarrow> int \<Rightarrow> kyc_record" where
  "example_record i st since =
     \<lparr>rec_id = i, userId = ''u1'', documentType = ''aadhaar'',
      documentNumber = ''123456789012'', documentNumberHash = Some ''#aadhaar:123456789012'',
      userIdHash = Some ''#user:u1'',
      fileHashes = \<lparr>front = Some ''#A'', back_side = None, selfie = Some ''#C''\<rparr>,
      merkleRoot = Some ''##A#C'',
      documentImages = \<lparr>front = Some ''/up/a.png'', back_side = None,
                          selfie = Some ''/up/c.png''\<rparr>,
      ipfsStorage = default_ipfsStorage, aiVerification = default_aiVerification,
      ariesCredential = default_ariesCredential,
      blockchainVerification = default_blockchainVerification,
      status = st, rejectionReason = None, submittedAt = since, completedAt = None,
      metadata_of = \<lparr>ipAddress = None, userAgent = None\<rparr>\<rparr>"

definition example_user :: user where
  "example_user =
     \<lparr>user_id = ''u1'', fullName = ''Asha Rao'', kycStatus = kyc_in_progress,
      kycRecordId = Some ''r1'', role = ''user''\<rparr>"

definition example_world :: "kyc_record list \<Rightarrow> world" where
  "example_world rs = \<lparr>kycRecords = rs, users = [example_user], timers = [], started = []\<rparr>"

definition example_disk :: "string \<rightharpoonup> string" where
  "example_disk = [''/up/a.png'' \<mapsto> ''A'', ''/up/c.png'' \<mapsto> ''C'']"

text \<open>
  Services for the examples: the dummy AI is switched on, Aries is skipped, the chain
  cannot be reached. The examples change single fields of this record.
\<close>

definition example_services :: services where
  "example_services =
     \<lparr>ipfs = example_ipfs_env,
      DUMMY_AI_VERIFICATION = Some ''true'',
      verifyDocuments = (\<lambda>images t n.
         Inl ''AI service is not reachable after multiple attempts. Please ensure it is running.''),
      SKIP_ARIES_CREDENTIAL = Some ''true'',
      NODE_ENV = Some ''production'',
      createConnectionInvitation = Inl ''Aries connection error: connect ECONNREFUSED'',
      initializeBlockchain =
        Some \<lparr>err_code = Some ''NETWORK_ERROR'', err_message = ''could not detect network''\<rparr>,
      keccak256_json = (\<lambda>hashData. ''0x5f'' @ hd_userIdHash hashData),
      registerVerification = (\<lambda>h uid t.
         Inr \<lparr>receipt_hash = ''0xabc'', receipt_blockNumber = 42, receipt_gasUsed = 21000\<rparr>),
      toISOString = (\<lambda>instant. ''2025-01-01T00:00:00.000Z'')\<rparr>"

definition example_images :: slots where
  "example_images = \<lparr>front = Some ''/up/a.png'', back_side = None, selfie = Some ''/up/c.png''\<rparr>"

text \<open>The AI service answers, and its verdict is negative.\<close>

definition example_services_negative :: services where
  "example_services_negative =
     example_services
       \<lparr>DUMMY_AI_VERIFICATION := None,
        verifyDocuments := (\<lambda>images t n.
          Inr \<lparr>res_verified = False, res_confidenceScore = 31 / 100,
               res_faceMatchScore = 12 / 100, res_ocrData = OcrExtracted [] [],
               res_errors = [''face mismatch'']\<rparr>)\<rparr>"


section \<open>Properties of the hashing utility\<close>

subsection \<open>The level loop computes the pairing of the specification\<close>

lemma merkleLevel_drop:
  assumes "\<forall>h \<in> set hs. h \<noteq> []" and "i \<le> length hs"
  shows "merkleLevel sha256 hs i acc = acc @ spec_pairLevel sha256 (drop i hs)"
  using assms
proof (induction sha256 hs i acc rule: merkleLevel.induct)
  case (1 sha256 hs i acc)
  show ?case
  proof (cases "i < length hs")
    case False
    with "1.prems" show ?thesis by (subst merkleLevel.simps) simp
  next
    case True
    note in_range = True
    show ?thesis
    proof (cases "i + 1 < length hs")
      case True
      then have nonempty: "hs ! (i + 1) \<noteq> []"
        using "1.prems"(1) by (metis nth_mem)
      have split: "drop i hs = hs ! i # hs ! (i + 1) # drop (i + 2) hs"
        using True in_range
        by (metis Cons_nth_drop_Suc Suc_eq_plus1 add_2_eq_Suc')
      have "merkleLevel sha256 hs i acc
              = merkleLevel sha256 hs (i + 2) (acc @ [sha256 (hs ! i @ hs ! (i + 1))])"
        using in_range True nonempty by (subst merkleLevel.simps) (simp add: Let_def)
      also have "\<dots> = (acc @ [sha256 (hs ! i @ hs ! (i + 1))])
                         @ spec_pairLevel sha256 (drop (i + 2) hs)"
        using "1.IH" [OF in_range refl refl "1.prems"(1)] True nonempty by simp
      finally show ?thesis by (simp add: split)
    next
      case False
      with in_range have last: "drop i hs = [hs ! i]" and after: "drop (i + 2) hs = []"
        by (simp_all add: Cons_nth_drop_Suc [symmetric])
      have "merkleLevel sha256 hs i acc
              = merkleLevel sha256 hs (i + 2) (acc @ [sha256 (hs ! i @ hs ! i)])"
        using in_range False by (subst merkleLevel.simps) (simp add: Let_def)
      also have "\<dots> = acc @ [sha256 (hs ! i @ hs ! i)]"
        using False by (subst merkleLevel.simps) simp
      finally show ?thesis by (simp add: last)
    qed
  qed
qed

lemma merkleLevel_spec:
  "\<forall>h \<in> set hs. h \<noteq> [] \<Longrightarrow> merkleLevel sha256 hs 0 [] = spec_pairLevel sha256 hs"
  using merkleLevel_drop [of hs 0 sha256 "[]"] by simp

lemma spec_pairLevel_nonempty:
  "(\<And>x. sha256 x \<noteq> []) \<Longrightarrow> \<forall>h \<in> set (spec_pairLevel sha256 hs). h \<noteq> []"
  by (induction sha256 hs rule: spec_pairLevel.induct) simp_all

lemma createMerkleRoot_spec:
  "(\<And>x. sha256 x \<noteq> []) \<Longrightarrow> \<forall>h \<in> set hs. h \<noteq> []
     \<Longrightarrow> createMerkleRoot sha256 (Some hs) = spec_merkleRoot sha256 hs"
proof (induction sha256 hs rule: spec_merkleRoot.induct)
  case (1 sha256)
  show ?case by (subst createMerkleRoot.simps) simp
next
  case (2 sha256 h)
  show ?case by (subst createMerkleRoot.simps) simp
next
  case (3 sha256 h1 h2 hs)
  have "createMerkleRoot sha256 (Some (h1 # h2 # hs))
          = createMerkleRoot sha256 (Some (spec_pairLevel sha256 (h1 # h2 # hs)))"
    using merkleLevel_spec [OF "3.prems"(2), of sha256]
    by (subst createMerkleRoot.simps) simp
  also have "\<dots> = spec_merkleRoot sha256 (spec_pairLevel sha256 (h1 # h2 # hs))"
    using "3.prems"(1) by (intro "3.IH" spec_pairLevel_nonempty)
  finally show ?case by simp
qed

lemma createMerkleRoot_total: "createMerkleRoot_dom (sha256, hashes)"
proof (cases hashes)
  case None
  then show ?thesis by (auto intro: createMerkleRoot.domintros)
next
  case (Some hs)
  have "createMerkleRoot_dom (sha256, Some hs)"
  proof (induction "length hs" arbitrary: hs rule: less_induct)
    case less
    show ?case
    proof (rule createMerkleRoot.domintros)
      fix x2
      assume x2: "Some hs = Some x2" and ne: "x2 \<noteq> []" and "length x2 \<noteq> Suc 0"
      moreover from ne have "length x2 \<noteq> 0"
        by simp
      ultimately have "2 \<le> length x2"
        by arith
      then have "(length x2 + 1) div 2 < length x2"
        by arith
      with x2 have "x2 = hs" and "(length hs + 1) div 2 < length hs"
        by simp_all
      then have "length (merkleLevel sha256 x2 0 []) < length hs"
        by (simp add: length_merkleLevel)
      then show "createMerkleRoot_dom (sha256, Some (merkleLevel sha256 x2 0 []))"
        by (rule less)
    qed
  qed
  with Some show ?thesis by simp
qed

lemma hashDocumentNumber_not_plain_concat:
  "inj sha256 \<Longrightarrow> hashDocumentNumber sha256 n t \<noteq> sha256 (t @ n)"
proof
  assume "inj sha256" and "hashDocumentNumber sha256 n t = sha256 (t @ n)"
  then have "t @ '':'' @ n = t @ n"
    by (simp add: hashDocumentNumber_def inj_eq)
  then have "length ('':'' @ n) = length n" by simp
  then show False by simp
qed


subsection \<open>Claims about the hashing utility\<close>

text \<open>
  C6. \<open>createMerkleRoot\<close> returns the hash of the sentinel \<open>empty\<close> for a missing and
  for an empty list and the single element for a one-element list. On a list of
  digests (no element is the empty string, and no digest is) it is the Merkle root of
  the specification: adjacent hashes are paired, each pair's concatenation is hashed,
  the last hash is paired with itself at a level of odd length, and the next level is
  treated the same way until one hash is left. For three hashes the root is
  \<open>sha256 (sha256 (h1 + h2) + sha256 (h3 + h3))\<close>, and equal inputs give equal
  roots. The side condition on \<open>h2\<close> is the source's \<^verbatim>\<open>hashes[i + 1] || left\<close>: an
  empty string at an odd position would be replaced by its left neighbour; a
  hexadecimal SHA-256 digest has 64 characters and is never empty.
\<close>

theorem createMerkleRoot_algorithm:
  assumes "\<And>x. sha256 x \<noteq> []" and "\<forall>h \<in> set hs. h \<noteq> []" and "h2 \<noteq> []"
  shows "createMerkleRoot sha256 None = sha256 ''empty''
       \<and> createMerkleRoot sha256 (Some []) = sha256 ''empty''
       \<and> createMerkleRoot sha256 (Some [h]) = h
       \<and> createMerkleRoot sha256 (Some hs) = spec_merkleRoot sha256 hs
       \<and> (2 \<le> length hs \<longrightarrow>
            createMerkleRoot sha256 (Some hs)
              = createMerkleRoot sha256 (Some (spec_pairLevel sha256 hs)))
       \<and> createMerkleRoot sha256 (Some [h1, h2, h3])
            = sha256 (sha256 (h1 @ h2) @ sha256 (h3 @ h3))
       \<and> (hashes = hashes' \<longrightarrow>
            createMerkleRoot sha256 hashes = createMerkleRoot sha256 hashes')"
proof -
  have missing: "createMerkleRoot sha256 None = sha256 ''empty''"
    by (subst createMerkleRoot.simps) simp
  have empty: "createMerkleRoot sha256 (Some []) = sha256 ''empty''"
    by (subst createMerkleRoot.simps) simp
  have single: "createMerkleRoot sha256 (Some [h]) = h"
    by (subst createMerkleRoot.simps) simp
  have spec: "createMerkleRoot sha256 (Some hs) = spec_merkleRoot sha256 hs"
    using assms(1,2) by (rule createMerkleRoot_spec)
  have level: "createMerkleRoot sha256 (Some hs)
                 = createMerkleRoot sha256 (Some (spec_pairLevel sha256 hs))"
    if "2 \<le> length hs"
    using that merkleLevel_spec [OF assms(2), of sha256]
    by (subst createMerkleRoot.simps) auto
  have three: "createMerkleRoot sha256 (Some [h1, h2, h3])
                 = sha256 (sha256 (h1 @ h2) @ sha256 (h3 @ h3))"
    using assms(1,3)
    by (simp add: createMerkleRoot.simps merkleLevel.simps Let_def)
  from missing empty single spec level three show ?thesis by simp
qed

theorem createMerkleRoot_algorithm_witness:
  "createMerkleRoot (\<lambda>s. CHR ''#'' # s) None = ''#empty''
   \<and> createMerkleRoot (\<lambda>s. CHR ''#'' # s) (Some []) = ''#empty''
   \<and> createMerkleRoot (\<lambda>s. CHR ''#'' # s) (Some [''a'']) = ''a''
   \<and> createMerkleRoot (\<lambda>s. CHR ''#'' # s) (Some [''a'', ''b'', ''c'', ''d'', ''e''])
       = ''###ab#cd##ee#ee''
   \<and> createMerkleRoot (\<lambda>s. CHR ''#'' # s) (Some [''a'', ''b'', ''c'']) = ''##ab#cc''"
  using createMerkleRoot_algorithm [of "\<lambda>s. CHR ''#'' # s" "[''a'', ''b'', ''c'', ''d'', ''e'']"
      "''b''" "''a''" "''a''" "''c''" None None]
  by simp

text \<open>
  C9. \<open>createMerkleRoot\<close> terminates on every input: every argument lies in the
  domain on which the recursion is well-founded. A level of \<open>n \<ge> 2\<close> hashes is
  reduced to \<open>(n + 1) div 2 < n\<close> hashes before the recursive call, and lists of
  length 0 or 1 (and a missing list) return without a recursive call.
\<close>

theorem createMerkleRoot_terminates:
  "createMerkleRoot_dom (sha256, hashes)
   \<and> (2 \<le> length hs \<longrightarrow>
        length (merkleLevel sha256 hs 0 []) = (length hs + 1) div 2
        \<and> length (merkleLevel sha256 hs 0 []) < length hs)
   \<and> (length hs < 2 \<longrightarrow>
        createMerkleRoot sha256 (Some hs) = (if hs = [] then sha256 ''empty'' else hs ! 0))"
proof -
  have "(length hs + 1) div 2 < length hs" if "2 \<le> length hs"
    using that by arith
  moreover have "createMerkleRoot sha256 (Some hs) = (if hs = [] then sha256 ''empty'' else hs ! 0)"
    if "length hs < 2"
  proof -
    from that have "length hs = 0 \<or> length hs = 1" by arith
    then show ?thesis by (subst createMerkleRoot.simps) auto
  qed
  ultimately show ?thesis
    by (simp add: createMerkleRoot_total length_merkleLevel)
qed

theorem createMerkleRoot_terminates_witness:
  "createMerkleRoot_dom (\<lambda>s. CHR ''#'' # s, Some [''a'', ''b'', ''c''])
   \<and> length (merkleLevel (\<lambda>s. CHR ''#'' # s) [''a'', ''b'', ''c''] 0 []) = 2
   \<and> createMerkleRoot (\<lambda>s. CHR ''#'' # s) (Some [''z'']) = ''z''"
  using createMerkleRoot_terminates [of "\<lambda>s. CHR ''#'' # s" "Some [''a'', ''b'', ''c'']"
      "[''a'', ''b'', ''c'']"]
    createMerkleRoot_terminates [of "\<lambda>s. CHR ''#'' # s" "Some [''a'', ''b'', ''c'']" "[''z'']"]
  by simp

text \<open>
  C8, as amended. \<open>hashDocumentNumber\<close> is the SHA-256 of the document type, a
  colon, and the document number, in this order; equal arguments give equal hashes;
  for one document number and two different document types the hashed strings
  differ, and so do the hashes when the digest function has no collision.
\<close>

theorem hashDocumentNumber_type_scoped:
  "hashDocumentNumber sha256 n t = sha256 (t @ '':'' @ n)
   \<and> (n = n' \<and> t = t' \<longrightarrow> hashDocumentNumber sha256 n t = hashDocumentNumber sha256 n' t')
   \<and> (t1 \<noteq> t2 \<longrightarrow> t1 @ '':'' @ n \<noteq> t2 @ '':'' @ n)
   \<and> (inj sha256 \<and> t1 \<noteq> t2 \<longrightarrow>
        hashDocumentNumber sha256 n t1 \<noteq> hashDocumentNumber sha256 n t2)"
  by (auto simp: hashDocumentNumber_def inj_eq)

theorem hashDocumentNumber_type_scoped_witness:
  "hashDocumentNumber (\<lambda>s. CHR ''#'' # s) ''ABCDE1234F'' ''pan'' = ''#pan:ABCDE1234F''
   \<and> hashDocumentNumber (\<lambda>s. CHR ''#'' # s) ''ABCDE1234F'' ''pan''
       \<noteq> hashDocumentNumber (\<lambda>s. CHR ''#'' # s) ''ABCDE1234F'' ''national_id''"
proof -
  have "inj (\<lambda>s. CHR ''#'' # s)" by (simp add: inj_def)
  then show ?thesis
    using hashDocumentNumber_type_scoped [of "\<lambda>s. CHR ''#'' # s" "''ABCDE1234F''" "''pan''"
        "''ABCDE1234F''" "''pan''" "''pan''" "''national_id''"]
    by (simp add: hashDocumentNumber_def)
qed

text \<open>
  The claim as written has the hash equal to the SHA-256 of the document type
  followed directly by the document number. The source puts a colon between them, so
  the two strings hashed differ, and a digest function without collisions (here the
  identity, the simplest one) tells them apart.
\<close>

theorem hashDocumentNumber_plain_concat_counterexample:
  "hashDocumentNumber (\<lambda>s. s) ''123456789012'' ''aadhaar''
     \<noteq> (\<lambda>s. s) (''aadhaar'' @ ''123456789012'')"
  by (simp add: hashDocumentNumber_def)


section \<open>Properties of the batch upload\<close>

lemma upload_one_entry:
  "upload_one E metadata file_path results = Inr (results @ [entry_of E metadata file_path])"
  by (simp add: upload_one_def entry_of_def try_catch_def and_then_def split: sum.splits)

lemma upload_loop_entries:
  "upload_loop E metadata filePaths results = Inr (results @ map (entry_of E metadata) filePaths)"
  by (induction filePaths arbitrary: results) (simp_all add: upload_one_entry and_then_def)

lemma uploadMultipleToIPFS_entries:
  "uploadMultipleToIPFS E filePaths metadata = Inr (map (entry_of E metadata) filePaths)"
  by (simp add: uploadMultipleToIPFS_def upload_loop_entries)

text \<open>
  C10. \<open>uploadMultipleToIPFS\<close> never throws; it returns one entry per file path, in
  the order of the paths. When \<open>uploadToIPFS\<close> throws for a file, the entry of that
  file has \<open>success = false\<close> and the error message, and the entries of the other
  files, before and after it, are what their own uploads give: every file is
  attempted.
\<close>

theorem uploadMultipleToIPFS_isolates_failures:
  "\<exists>results. uploadMultipleToIPFS E filePaths metadata = Inr results
     \<and> length results = length filePaths
     \<and> map filePath results = filePaths
     \<and> (\<forall>i < length filePaths.
          case uploadToIPFS E (filePaths ! i)
                 (AList.update ''filename'' (last_path_segment (filePaths ! i)) metadata) of
            Inl message \<Rightarrow> success (results ! i) = False \<and> uploaded (results ! i) = None
                            \<and> entry_error (results ! i) = Some message
          | Inr result \<Rightarrow> success (results ! i) = True \<and> uploaded (results ! i) = Some result)"
proof -
  let ?results = "map (entry_of E metadata) filePaths"
  have "map filePath ?results = filePaths"
    by (induction filePaths) (simp_all add: entry_of_def split: sum.splits)
  moreover have "\<forall>i < length filePaths.
          case uploadToIPFS E (filePaths ! i)
                 (AList.update ''filename'' (last_path_segment (filePaths ! i)) metadata) of
            Inl message \<Rightarrow> success (?results ! i) = False \<and> uploaded (?results ! i) = None
                            \<and> entry_error (?results ! i) = Some message
          | Inr result \<Rightarrow> success (?results ! i) = True \<and> uploaded (?results ! i) = Some result"
    by (simp add: entry_of_def entry_error_def split: sum.splits)
  ultimately show ?thesis
    by (simp add: uploadMultipleToIPFS_entries)
qed


theorem uploadMultipleToIPFS_isolates_failures_witness:
  "\<exists>results.
      uploadMultipleToIPFS example_ipfs_env [''/up/a.png'', ''/up/b.png'', ''/up/c.png''] [] = Inr results
      \<and> map filePath results = [''/up/a.png'', ''/up/b.png'', ''/up/c.png'']
      \<and> map success results = [True, False, True]
      \<and> map entry_cid results = [Some ''cid:/up/a.png'', None, Some ''cid:/up/c.png'']"
proof -
  let ?paths = "[''/up/a.png'', ''/up/b.png'', ''/up/c.png'']"
  from uploadMultipleToIPFS_isolates_failures [of example_ipfs_env ?paths "[]"]
  obtain results where all: "uploadMultipleToIPFS example_ipfs_env ?paths [] = Inr results
     \<and> length results = length ?paths
     \<and> map filePath results = ?paths
     \<and> (\<forall>i < length ?paths.
          case uploadToIPFS example_ipfs_env (?paths ! i)
                 (AList.update ''filename'' (last_path_segment (?paths ! i)) []) of
            Inl message \<Rightarrow> success (results ! i) = False \<and> uploaded (results ! i) = None
                            \<and> entry_error (results ! i) = Some message
          | Inr result \<Rightarrow> success (results ! i) = True \<and> uploaded (results ! i) = Some result)" ..
  note run = all [THEN conjunct1]
    and len = all [THEN conjunct2, THEN conjunct1]
    and paths = all [THEN conjunct2, THEN conjunct2, THEN conjunct1]
    and each = all [THEN conjunct2, THEN conjunct2, THEN conjunct2, rule_format]
  have up0: "uploadToIPFS example_ipfs_env ''/up/a.png'' m
      = Inr \<lparr>cid = Some ''cid:/up/a.png'', size_bytes = Some 1, timestamp = Some ''t'',
             provider = ''Pinata'', fileHash = ''#A'', localPath = ''/up/a.png'', error = None\<rparr>" for m
    by (simp add: uploadToIPFS_def example_ipfs_env_def calculateFileHash_def readFileSync_def
        and_then_def try_catch_def toLowerCase_def is_upper_def)
  have up1: "uploadToIPFS example_ipfs_env ''/up/b.png'' m
      = Inl (''IPFS upload failed: ENOENT: no such file or directory, open ''
              @ [CHR 0x27] @ ''/up/b.png'' @ [CHR 0x27])" for m
    by (simp add: uploadToIPFS_def example_ipfs_env_def calculateFileHash_def readFileSync_def
        and_then_def try_catch_def toLowerCase_def is_upper_def)
  have up2: "uploadToIPFS example_ipfs_env ''/up/c.png'' m
      = Inr \<lparr>cid = Some ''cid:/up/c.png'', size_bytes = Some 1, timestamp = Some ''t'',
             provider = ''Pinata'', fileHash = ''#C'', localPath = ''/up/c.png'', error = None\<rparr>" for m
    by (simp add: uploadToIPFS_def example_ipfs_env_def calculateFileHash_def readFileSync_def
        and_then_def try_catch_def toLowerCase_def is_upper_def)
  from len obtain r0 r1 r2 where results: "results = [r0, r1, r2]"
    by (auto simp: length_Suc_conv)
  have "success r0 \<and> entry_cid r0 = Some ''cid:/up/a.png''"
    using each [of 0] by (simp add: up0 entry_cid_def results)
  moreover have "\<not> success r1 \<and> entry_cid r1 = None"
    using each [of 1] by (simp add: up1 entry_cid_def results)
  moreover have "success r2 \<and> entry_cid r2 = Some ''cid:/up/c.png''"
    using each [of 2] by (simp add: up2 entry_cid_def results)
  ultimately have "map success results = [True, False, True]"
    and "map entry_cid results = [Some ''cid:/up/a.png'', None, Some ''cid:/up/c.png'']"
    by (simp_all add: results)
  with run paths show ?thesis by (intro exI [of _ results] conjI)
qed


section \<open>Properties of the validation\<close>

lemma sanitize_fields [simp]:
  "body_documentType (sanitizeFileMetadata req) = body_documentType req"
  "body_documentNumber (sanitizeFileMetadata req) = body_documentNumber req"
  by (simp_all add: sanitizeFileMetadata_def)

lemma map_of_sanitized:
  "map_of (map (\<lambda>(key, fileArray). (key, map g fileArray)) fls) k
     = map_option (map g) (map_of fls k)"
  by (induction fls) auto

lemma file_missing_sanitize [simp]:
  "file_missing (sanitizeFileMetadata req) field = file_missing req field"
  by (cases "req_files req")
     (auto simp: file_missing_def sanitizeFileMetadata_def map_of_sanitized split: option.splits)

lemma missing_nonempty:
  assumes "field \<in> set required" and "file_missing req field" and "req_files req = Some fls"
  shows "concat (map (required_file_error t fls) required) \<noteq> []"
proof -
  from assms(2,3) have "required_file_error t fls field \<noteq> []"
    by (simp add: file_missing_def required_file_error_def split: option.splits)
  with assms(1) show ?thesis
    by (simp add: concat_eq_Nil_conv) (rule bexI)
qed

lemma validate_rejects:
  assumes "body_documentType req = Some t" and "body_documentNumber req = Some n"
    and "t \<notin> set validTypes \<or> \<not> numberPattern (DOCUMENT_RULES t) n
         \<or> (\<exists>field \<in> set (requiredFields (DOCUMENT_RULES t)). file_missing req field)"
  shows "\<exists>message errs. validateKYCSubmission req = Some (ValidationFailed 400 message errs)
           \<and> errs \<noteq> []"
proof -
  consider (empty) "t = [] \<or> n = []"
    | (type) "t \<noteq> []" "n \<noteq> []" "t \<notin> set validTypes"
    | (number) "t \<noteq> []" "n \<noteq> []" "t \<in> set validTypes" "\<not> numberPattern (DOCUMENT_RULES t) n"
    | (files) field where "t \<noteq> []" "n \<noteq> []" "t \<in> set validTypes"
        "numberPattern (DOCUMENT_RULES t) n"
        "field \<in> set (requiredFields (DOCUMENT_RULES t))" "file_missing req field"
    using assms(3) by blast
  then show ?thesis
  proof cases
    case empty
    then show ?thesis using assms(1,2) by (auto simp: validateKYCSubmission_def)
  next
    case type
    then show ?thesis using assms(1,2) by (simp add: validateKYCSubmission_def)
  next
    case number
    then show ?thesis using assms(1,2) by (simp add: validateKYCSubmission_def)
  next
    case files
    show ?thesis
    proof (cases "req_files req")
      case None
      with files assms(1,2) show ?thesis by (simp add: validateKYCSubmission_def)
    next
      case (Some fls)
      from missing_nonempty [OF files(5,6) Some, of t] files(1-4) assms(1,2) Some
      show ?thesis
        by (simp add: validateKYCSubmission_def Let_def)
    qed
  qed
qed

text \<open>
  C7. A submission whose document type is not a recognised one, whose document number
  does not match the pattern of its type (twelve digits for aadhaar; five capital
  letters, four digits and a capital letter for pan), or that lacks a required image
  (front and selfie for every type, back as well for passport and driving_license) is
  answered by the validation middleware with status 400 and a non-empty list of error
  messages; the controller does not run, so no record is created and the state is
  what it was.
\<close>

theorem validation_precedes_record_creation:
  assumes "body_documentType req = Some t" and "body_documentNumber req = Some n"
    and "t \<notin> set validTypes \<or> \<not> numberPattern (DOCUMENT_RULES t) n
         \<or> (\<exists>field \<in> set (requiredFields (DOCUMENT_RULES t)). file_missing req field)"
  shows "(\<exists>message errs.
            post_submit sha256 fs new_id now req w = (ValidationFailed 400 message errs, w)
            \<and> errs \<noteq> [])
       \<and> (numberPattern (DOCUMENT_RULES ''aadhaar'') n \<longleftrightarrow> length n = 12 \<and> list_all is_digit n)
       \<and> (numberPattern (DOCUMENT_RULES ''pan'') n \<longleftrightarrow>
            length n = 10 \<and> list_all is_upper (take 5 n) \<and> list_all is_digit (take 4 (drop 5 n))
            \<and> list_all is_upper (drop 9 n))
       \<and> {''front'', ''selfie''} \<subseteq> set (requiredFields (DOCUMENT_RULES t))
       \<and> (t = ''passport'' \<or> t = ''driving_license''
            \<longrightarrow> ''back'' \<in> set (requiredFields (DOCUMENT_RULES t)))"
proof -
  from assms have "\<exists>message errs.
      validateKYCSubmission (sanitizeFileMetadata req) = Some (ValidationFailed 400 message errs)
      \<and> errs \<noteq> []"
    by (intro validate_rejects) simp_all
  then have "\<exists>message errs.
            post_submit sha256 fs new_id now req w = (ValidationFailed 400 message errs, w)
            \<and> errs \<noteq> []"
    by (auto simp: post_submit_def)
  then show ?thesis
    by (simp add: DOCUMENT_RULES_def)
qed

theorem validation_precedes_record_creation_witness:
  "(\<exists>message errs.
      post_submit (\<lambda>s. CHR ''#'' # s) example_disk ''r2'' 1000
          (example_request ''aadhaar'' ''12345'') (example_world [])
        = (ValidationFailed 400 message errs, example_world []) \<and> errs \<noteq> [])
   \<and> (\<exists>message errs.
      post_submit (\<lambda>s. CHR ''#'' # s) example_disk ''r2'' 1000
          (example_request ''passport'' ''A1234567'') (example_world [])
        = (ValidationFailed 400 message errs, example_world []) \<and> errs \<noteq> [])
   \<and> post_submit (\<lambda>s. CHR ''#'' # s) example_disk ''r2'' 1000
          (example_request ''passport'' ''A1234567'') (example_world [])
        = (ValidationFailed 400 ''Validation failed'' [''back image is required for passport''],
           example_world [])"
proof -
  have bad_number: "\<not> numberPattern (DOCUMENT_RULES ''aadhaar'') ''12345''"
    by (simp add: DOCUMENT_RULES_def)
  have no_back: "file_missing (example_request ''passport'' ''A1234567'') ''back''"
    by (simp add: file_missing_def example_request_def)
  have required: "''back'' \<in> set (requiredFields (DOCUMENT_RULES ''passport''))"
    by (simp add: DOCUMENT_RULES_def)
  have direct: "post_submit (\<lambda>s. CHR ''#'' # s) example_disk ''r2'' 1000
          (example_request ''passport'' ''A1234567'') (example_world [])
        = (ValidationFailed 400 ''Validation failed'' [''back image is required for passport''],
           example_world [])"
    by (simp add: post_submit_def validateKYCSubmission_def sanitizeFileMetadata_def
        example_request_def DOCUMENT_RULES_def validTypes_def required_file_error_def
        is_upper_def is_digit_def Let_def)
  show ?thesis
    using validation_precedes_record_creation [of "example_request ''aadhaar'' ''12345''"
        "''aadhaar''" "''12345''" "\<lambda>s. CHR ''#'' # s" example_disk "''r2''" 1000 "example_world []"]
      validation_precedes_record_creation [of "example_request ''passport'' ''A1234567''"
        "''passport''" "''A1234567''" "\<lambda>s. CHR ''#'' # s" example_disk "''r2''" 1000 "example_world []"]
      bad_number no_back required direct
    by (simp add: example_request_def)
qed


section \<open>Properties of the submission\<close>

lemma find_update_first:
  assumes "distinct (map key rs)" and "e \<in> set rs" and "key (f e) = key e"
  shows "find (\<lambda>r. key r = key e) (update_first (\<lambda>r. key r = key e) f rs) = Some (f e)"
  using assms
proof (induction rs)
  case Nil
  then show ?case by simp
next
  case (Cons r rs)
  show ?case
  proof (cases "key r = key e")
    case True
    with Cons.prems have "r = e" by (auto simp: image_iff)
    with True Cons.prems(3) show ?thesis by simp
  next
    case False
    with Cons show ?thesis by auto
  qed
qed

lemma findOne_in_progress_member:
  "KYCRecord_findOne_in_progress uid w = Some e \<Longrightarrow> e \<in> set (kycRecords w)"
  by (auto simp: KYCRecord_findOne_in_progress_def find_Some_iff)

lemma rec_id_auto_fail_stuck [simp]: "rec_id (auto_fail_stuck elapsed_ms now r) = rec_id r"
  by (simp add: auto_fail_stuck_def)

lemma set_update_first_ids:
  "(\<And>x. key (f x) = key x) \<Longrightarrow> map key (update_first p f rs) = map key rs"
  by (induction rs) auto

text \<open>
  What the second half of \<open>submitKYC\<close> does to the records: nothing, or one new
  record at the end, with the new identifier and the status \<open>submitted\<close>.
\<close>

lemma submitKYC_accept_records:
  "kycRecords (snd (submitKYC_accept sha256 fs new_id now req t n ff sf bf w)) = kycRecords w
   \<or> (\<exists>r. kycRecords (snd (submitKYC_accept sha256 fs new_id now req t n ff sf bf w))
              = kycRecords w @ [r]
          \<and> rec_id r = new_id \<and> status r = submitted)"
  by (simp add: submitKYC_accept_def User_findByIdAndUpdate_def Let_def
      split: sum.splits prod.splits)

lemma submitKYC_accept_not_InProgress:
  "fst (submitKYC_accept sha256 fs new_id now req t n ff sf bf w) \<noteq> InProgress s a i"
  by (simp add: submitKYC_accept_def Let_def split: sum.splits prod.splits)

lemma find_append_new:
  assumes "find p rs = Some e"
  shows "find p (rs @ ys) = Some e"
  using assms by (induction rs) (auto split: if_splits)

lemma submitKYC_accept_created:
  assumes "uploads_readable fs ff sf bf" and "t \<in> set schema_documentTypes"
  shows "fst (submitKYC_accept sha256 fs new_id now req t n ff sf bf w)
           = Created new_id submitted now t
       \<and> (\<exists>r. kycRecords (snd (submitKYC_accept sha256 fs new_id now req t n ff sf bf w))
                  = kycRecords w @ [r]
              \<and> rec_id r = new_id \<and> status r = submitted \<and> userId r = req_user_id req
              \<and> submittedAt r = now)"
proof -
  from assms(1) obtain file_front ff' file_selfie sf' buffer_front buffer_selfie
    where ff: "ff = file_front # ff'" and sf: "sf = file_selfie # sf'"
      and front: "fs (multer_path file_front) = Some buffer_front"
      and selfie: "fs (multer_path file_selfie) = Some buffer_selfie"
    by (auto simp: uploads_readable_def first_readable_def split: list.splits)
  show ?thesis
  proof (cases bf)
    case None
    with ff sf front selfie assms(2) show ?thesis
      by (simp add: submitKYC_accept_def first_path_def readFileSync_def and_then_def
          User_findByIdAndUpdate_def Let_def)
  next
    case (Some files_back)
    with assms(1) obtain file_back bf' buffer_back
      where "files_back = file_back # bf'" and "fs (multer_path file_back) = Some buffer_back"
      by (auto simp: uploads_readable_def first_readable_def split: list.splits)
    with Some ff sf front selfie assms(2) show ?thesis
      by (simp add: submitKYC_accept_def first_path_def readFileSync_def and_then_def
          User_findByIdAndUpdate_def Let_def)
  qed
qed

lemma findById_snd_accept_old:
  assumes "KYCRecord_findById i w = Some r"
  shows "KYCRecord_findById i (snd (submitKYC_accept sha256 fs new_id now req t n ff sf bf w))
           = Some r"
  using submitKYC_accept_records [of sha256 fs new_id now req t n ff sf bf w] assms
  by (auto simp: KYCRecord_findById_def find_append_new)

lemma find_append_fresh:
  assumes "\<forall>x \<in> set rs. \<not> p x" and "p r"
  shows "find p (rs @ [r]) = Some r"
  using assms by (induction rs) auto

text \<open>
  C1, as amended. When \<open>submitKYC\<close> finds a record of the user in a non-terminal
  state, it answers with status 400 and the existing record's status, submission time
  and identifier, and changes nothing - unless that record has the status
  \<open>ai_processing\<close> and is more than ten minutes old. In that one case the record is
  set to \<open>rejected\<close> with the processing-timeout error and reason and the submission
  goes on; it is accepted with status 201 and a new record in state \<open>submitted\<close>
  when the uploaded files can be read and the document type is one the schema knows.
  A record in state \<open>submitted\<close>, \<open>ai_verified\<close> or \<open>credential_issued\<close> blocks a
  new submission whatever its age.
\<close>

theorem submitKYC_in_progress_guard:
  assumes "body_documentType req = Some t" and "t \<noteq> []"
    and "body_documentNumber req = Some n" and "n \<noteq> []"
    and "req_files req = Some fls"
    and "map_of fls ''documentImages[front]'' = Some frontFiles"
    and "map_of fls ''documentImages[selfie]'' = Some selfieFiles"
    and "KYCRecord_findOne_in_progress (req_user_id req) w = Some existing"
    and "distinct (map rec_id (kycRecords w))"
    and "new_id \<notin> set (map rec_id (kycRecords w))"
  shows "(\<not> (status existing = ai_processing \<and> now - submittedAt existing > 10 * 60000) \<longrightarrow>
            submitKYC sha256 fs new_id now req w
              = (InProgress (status existing) (submittedAt existing) (rec_id existing), w))
       \<and> (status existing = ai_processing \<and> now - submittedAt existing > 10 * 60000 \<longrightarrow>
            KYCRecord_findById (rec_id existing) (snd (submitKYC sha256 fs new_id now req w))
              = Some (existing
                  \<lparr>status := rejected,
                   aiVerification := (aiVerification existing)
                     \<lparr>aiv_status := failed,
                      errors := [''Processing timeout - verification took too long'']\<rparr>,
                   rejectionReason := Some (''AI verification timeout after ''
                      @ minutes_toFixed0 (now - submittedAt existing)
                      @ '' minutes. Please resubmit.''),
                   completedAt := Some now\<rparr>)
            \<and> (\<forall>s a i. fst (submitKYC sha256 fs new_id now req w) \<noteq> InProgress s a i)
            \<and> (uploads_readable fs frontFiles selfieFiles (map_of fls ''documentImages[back]'')
                 \<and> t \<in> set schema_documentTypes \<longrightarrow>
                 fst (submitKYC sha256 fs new_id now req w) = Created new_id submitted now t
                 \<and> (\<exists>r. KYCRecord_findById new_id (snd (submitKYC sha256 fs new_id now req w))
                           = Some r
                        \<and> status r = submitted \<and> userId r = req_user_id req)))"
proof (intro conjI impI)
  assume "\<not> (status existing = ai_processing \<and> now - submittedAt existing > 10 * 60000)"
  with assms(1-8) show "submitKYC sha256 fs new_id now req w
      = (InProgress (status existing) (submittedAt existing) (rec_id existing), w)"
    by (auto simp: submitKYC_def Let_def)
next
  assume stuck: "status existing = ai_processing \<and> now - submittedAt existing > 10 * 60000"
  let ?w = "KYCRecord_findByIdAndUpdate (rec_id existing)
              (auto_fail_stuck (now - submittedAt existing) now) w"
  let ?backFiles = "map_of fls ''documentImages[back]''"
  have run: "submitKYC sha256 fs new_id now req w
      = submitKYC_accept sha256 fs new_id now req t n frontFiles selfieFiles ?backFiles ?w"
    using assms(1-8) stuck by (simp add: submitKYC_def Let_def)
  have member: "existing \<in> set (kycRecords w)"
    using assms(8) by (rule findOne_in_progress_member)
  have old: "KYCRecord_findById (rec_id existing) ?w
      = Some (auto_fail_stuck (now - submittedAt existing) now existing)"
    unfolding KYCRecord_findById_def KYCRecord_findByIdAndUpdate_def
    using find_update_first [OF assms(9) member, of "auto_fail_stuck (now - submittedAt existing) now"]
    by simp
  show "KYCRecord_findById (rec_id existing) (snd (submitKYC sha256 fs new_id now req w))
      = Some (existing
          \<lparr>status := rejected,
           aiVerification := (aiVerification existing)
             \<lparr>aiv_status := failed,
              errors := [''Processing timeout - verification took too long'']\<rparr>,
           rejectionReason := Some (''AI verification timeout after ''
              @ minutes_toFixed0 (now - submittedAt existing)
              @ '' minutes. Please resubmit.''),
           completedAt := Some now\<rparr>)"
    unfolding run using findById_snd_accept_old [OF old]
    by (simp add: auto_fail_stuck_def)
  show "\<forall>s a i. fst (submitKYC sha256 fs new_id now req w) \<noteq> InProgress s a i"
    unfolding run by (simp add: submitKYC_accept_not_InProgress)
  assume ok: "uploads_readable fs frontFiles selfieFiles ?backFiles \<and> t \<in> set schema_documentTypes"
  from submitKYC_accept_created [of fs frontFiles selfieFiles ?backFiles t sha256 new_id now req n ?w] ok
  obtain r where created: "fst (submitKYC sha256 fs new_id now req w) = Created new_id submitted now t"
    and records: "kycRecords (snd (submitKYC sha256 fs new_id now req w)) = kycRecords ?w @ [r]"
    and r: "rec_id r = new_id" "status r = submitted" "userId r = req_user_id req"
    unfolding run by auto
  have "map rec_id (kycRecords ?w) = map rec_id (kycRecords w)"
    by (simp add: KYCRecord_findByIdAndUpdate_def set_update_first_ids)
  with assms(10) have "\<forall>x \<in> set (kycRecords ?w). \<not> rec_id x = new_id"
    by (metis image_eqI list.set_map)
  then have "KYCRecord_findById new_id (snd (submitKYC sha256 fs new_id now req w)) = Some r"
    unfolding KYCRecord_findById_def records using r(1) by (rule find_append_fresh)
  with r
  show "\<exists>r. KYCRecord_findById new_id (snd (submitKYC sha256 fs new_id now req w)) = Some r
             \<and> status r = submitted \<and> userId r = req_user_id req"
    by simp
  from created
  show "fst (submitKYC sha256 fs new_id now req w) = Created new_id submitted now t" .
qed

theorem submitKYC_in_progress_guard_witness:
  "fst (submitKYC (\<lambda>s. CHR ''#'' # s) example_disk ''r2'' 660000
          (example_request ''aadhaar'' ''123456789012'')
          (example_world [example_record ''r1'' ai_processing 0]))
     = Created ''r2'' submitted 660000 ''aadhaar''
   \<and> map_option status
        (KYCRecord_findById ''r1''
          (snd (submitKYC (\<lambda>s. CHR ''#'' # s) example_disk ''r2'' 660000
                  (example_request ''aadhaar'' ''123456789012'')
                  (example_world [example_record ''r1'' ai_processing 0]))))
     = Some rejected
   \<and> map_option rejectionReason
        (KYCRecord_findById ''r1''
          (snd (submitKYC (\<lambda>s. CHR ''#'' # s) example_disk ''r2'' 660000
                  (example_request ''aadhaar'' ''123456789012'')
                  (example_world [example_record ''r1'' ai_processing 0]))))
     = Some (Some ''AI verification timeout after 11 minutes. Please resubmit.'')
   \<and> submitKYC (\<lambda>s. CHR ''#'' # s) example_disk ''r2'' 300000
          (example_request ''aadhaar'' ''123456789012'')
          (example_world [example_record ''r1'' ai_processing 0])
     = (InProgress ai_processing 0 ''r1'', example_world [example_record ''r1'' ai_processing 0])"
proof -
  let ?req = "example_request ''aadhaar'' ''123456789012''"
  let ?old = "example_record ''r1'' ai_processing 0"
  let ?w = "example_world [?old]"
  let ?fls = "[(''documentImages[front]'', [example_file ''/up/a.png'']),
               (''documentImages[selfie]'', [example_file ''/up/c.png''])]"
  have h1: "body_documentType ?req = Some ''aadhaar''" and h2: "''aadhaar'' \<noteq> []"
    and h3: "body_documentNumber ?req = Some ''123456789012''" and h4: "''123456789012'' \<noteq> []"
    and h5: "req_files ?req = Some ?fls"
    by (simp_all add: example_request_def)
  have h6: "map_of ?fls ''documentImages[front]'' = Some [example_file ''/up/a.png'']"
    and h7: "map_of ?fls ''documentImages[selfie]'' = Some [example_file ''/up/c.png'']"
    and no_back: "map_of ?fls ''documentImages[back]'' = None"
    by simp_all
  have h8: "KYCRecord_findOne_in_progress (req_user_id ?req) ?w = Some ?old"
    by (simp add: KYCRecord_findOne_in_progress_def example_request_def example_world_def
        example_record_def)
  have h9: "distinct (map rec_id (kycRecords ?w))"
    and h10: "''r2'' \<notin> set (map rec_id (kycRecords ?w))"
    by (simp_all add: example_world_def example_record_def)
  have readable: "uploads_readable example_disk [example_file ''/up/a.png'']
      [example_file ''/up/c.png''] (map_of ?fls ''documentImages[back]'')"
    unfolding no_back
    by (simp add: uploads_readable_def first_readable_def example_file_def example_disk_def)
  have schema: "''aadhaar'' \<in> set schema_documentTypes"
    by (simp add: schema_documentTypes_def)
  have minutes: "minutes_toFixed0 (660000 - 0) = ''11''"
    by (simp add: minutes_toFixed0_def decimal.simps)
  have facts: "status ?old = ai_processing" "submittedAt ?old = 0" "rec_id ?old = ''r1''"
    by (simp_all add: example_record_def)
  note stuck = submitKYC_in_progress_guard [OF h1 h2 h3 h4 h5 h6 h7 h8 h9 h10,
      of 660000 "\<lambda>s. CHR ''#'' # s" example_disk, THEN conjunct2, rule_format]
  note fresh = submitKYC_in_progress_guard [OF h1 h2 h3 h4 h5 h6 h7 h8 h9 h10,
      of 300000 "\<lambda>s. CHR ''#'' # s" example_disk, THEN conjunct1, rule_format]
  have is_stuck: "status ?old = ai_processing \<and> 660000 - submittedAt ?old > 10 * 60000"
    by (simp add: facts)
  have not_stuck: "\<not> (status ?old = ai_processing \<and> 300000 - submittedAt ?old > 10 * 60000)"
    by (simp add: facts)
  from stuck [OF is_stuck, THEN conjunct2, THEN conjunct2, rule_format, OF conjI, OF readable schema]
  have created: "fst (submitKYC (\<lambda>s. CHR ''#'' # s) example_disk ''r2'' 660000 ?req ?w)
      = Created ''r2'' submitted 660000 ''aadhaar''"
    by (rule conjunct1)
  from stuck [OF is_stuck, THEN conjunct1]
  have old: "map_option status
        (KYCRecord_findById ''r1'' (snd (submitKYC (\<lambda>s. CHR ''#'' # s) example_disk ''r2'' 660000 ?req ?w)))
      = Some rejected"
    and reason: "map_option rejectionReason
        (KYCRecord_findById ''r1'' (snd (submitKYC (\<lambda>s. CHR ''#'' # s) example_disk ''r2'' 660000 ?req ?w)))
      = Some (Some ''AI verification timeout after 11 minutes. Please resubmit.'')"
    using minutes by (simp_all add: facts)
  from fresh [OF not_stuck]
  have blocked: "submitKYC (\<lambda>s. CHR ''#'' # s) example_disk ''r2'' 300000 ?req ?w
      = (InProgress ai_processing 0 ''r1'', ?w)"
    by (simp add: facts)
  from created old reason blocked show ?thesis
    by (intro conjI)
qed

text \<open>
  The claim as written lets every non-terminal record past the staleness threshold be
  rejected and replaced. A record that is eleven minutes old and still \<open>submitted\<close>,
  or \<open>credential_issued\<close>, is not touched: the new submission is answered with
  status 400 and the old record's identifier, and the state is unchanged.
\<close>

theorem submitKYC_stale_other_status_counterexample:
  "submitKYC (\<lambda>s. CHR ''#'' # s) example_disk ''r2'' 660000
      (example_request ''aadhaar'' ''123456789012'')
      (example_world [example_record ''r1'' submitted 0])
     = (InProgress submitted 0 ''r1'', example_world [example_record ''r1'' submitted 0])
   \<and> submitKYC (\<lambda>s. CHR ''#'' # s) example_disk ''r2'' 660000
      (example_request ''aadhaar'' ''123456789012'')
      (example_world [example_record ''r1'' credential_issued 0])
     = (InProgress credential_issued 0 ''r1'',
        example_world [example_record ''r1'' credential_issued 0])"
  by (simp add: submitKYC_def example_request_def example_world_def example_record_def
      KYCRecord_findOne_in_progress_def Let_def)


section \<open>Properties of the background pipeline\<close>

subsection \<open>Reading a record back after an update\<close>

lemma find_update_first_same:
  "(\<And>x. p (f x) = p x) \<Longrightarrow> find p (update_first p f xs) = map_option f (find p xs)"
  by (induction xs) auto

lemma findById_update:
  assumes "\<And>r. rec_id (f r) = rec_id r"
  shows "KYCRecord_findById i (KYCRecord_findByIdAndUpdate i f w)
           = map_option f (KYCRecord_findById i w)"
  unfolding KYCRecord_findById_def KYCRecord_findByIdAndUpdate_def
  using find_update_first_same [of "\<lambda>r. rec_id r = i" f "kycRecords w"] assms by simp

lemma rec_id_updates [simp]:
  "rec_id (ledger_failed_update message r) = rec_id r"
  "rec_id (ledger_completed_update blockchainResult now r) = rec_id r"
  "rec_id (credential_update now d r) = rec_id r"
  "rec_id (timeout_update now r) = rec_id r"
  "rec_id (ai_error_update message r) = rec_id r"
  "rec_id (updateData aiResult e1 e2 e3 now r) = rec_id r"
  by (simp_all add: ledger_failed_update_def ledger_completed_update_def credential_update_def
      timeout_update_def ai_error_update_def updateData_def)

lemma untouched_by_record_update [simp]:
  "users (KYCRecord_findByIdAndUpdate i f w) = users w"
  "timers (KYCRecord_findByIdAndUpdate i f w) = timers w"
  "started (KYCRecord_findByIdAndUpdate i f w) = started w"
  by (simp_all add: KYCRecord_findByIdAndUpdate_def)

lemma untouched_by_user_update [simp]:
  "kycRecords (User_findByIdAndUpdate i f w) = kycRecords w"
  "timers (User_findByIdAndUpdate i f w) = timers w"
  "started (User_findByIdAndUpdate i f w) = started w"
  by (simp_all add: User_findByIdAndUpdate_def)

lemma findById_user_update [simp]:
  "KYCRecord_findById i (User_findByIdAndUpdate j f w) = KYCRecord_findById i w"
  by (simp add: KYCRecord_findById_def)

subsection \<open>Ledger failure\<close>

text \<open>
  C4. When \<open>registerKYCOnBlockchain\<close> throws, \<open>registerOnBlockchain\<close> makes one
  write: the status \<open>credential_issued\<close> and the reason
  \<open>Blockchain registration failed: ...\<close>. The record is otherwise what it was: the
  ledger sub-state (\<open>transactionHash\<close>, \<open>blockNumber\<close>, \<open>verificationHash\<close>,
  \<open>registeredAt\<close>), \<open>completedAt\<close> and the issued credential are not written, so
  what was unset stays unset; the status is not \<open>rejected\<close>, and the user's status is
  not changed.
\<close>

theorem ledger_failure_keeps_credential_issued:
  assumes "KYCRecord_findById i w = Some r" and "User_findById (userId r) w = Some u"
    and "registerKYCOnBlockchain svc now (user_id u) (blockchainData r) = Inl message"
  shows "registerOnBlockchain svc now i w
           = [KYCRecord_findByIdAndUpdate i (ledger_failed_update message) w]
       \<and> KYCRecord_findById i (last (registerOnBlockchain svc now i w))
           = Some (r\<lparr>status := credential_issued,
                     rejectionReason := Some (''Blockchain registration failed: '' @ message)\<rparr>)
       \<and> (\<exists>r'. KYCRecord_findById i (last (registerOnBlockchain svc now i w)) = Some r'
              \<and> status r' = credential_issued \<and> status r' \<noteq> rejected
              \<and> rejectionReason r' = Some (''Blockchain registration failed: '' @ message)
              \<and> blockchainVerification r' = blockchainVerification r
              \<and> completedAt r' = completedAt r
              \<and> ariesCredential r' = ariesCredential r)
       \<and> users (last (registerOnBlockchain svc now i w)) = users w"
proof -
  have run: "registerOnBlockchain svc now i w
      = [KYCRecord_findByIdAndUpdate i (ledger_failed_update message) w]"
    using assms by (simp add: registerOnBlockchain_def and_then_def)
  have after: "KYCRecord_findById i (last (registerOnBlockchain svc now i w))
      = Some (ledger_failed_update message r)"
    using assms(1) by (simp add: run findById_update)
  show ?thesis
    using run after by (simp add: ledger_failed_update_def)
qed

lemma ex_ledger_fails:
  "registerKYCOnBlockchain example_services now uid payload
     = Inl ''Blockchain network is not reachable''"
  by (simp add: registerKYCOnBlockchain_def example_services_def)

theorem ledger_failure_keeps_credential_issued_witness:
  "map_option status
      (KYCRecord_findById ''r1''
        (last (registerOnBlockchain example_services 1000 ''r1''
                 (example_world [example_record ''r1'' credential_issued 0]))))
     = Some credential_issued
   \<and> map_option rejectionReason
      (KYCRecord_findById ''r1''
        (last (registerOnBlockchain example_services 1000 ''r1''
                 (example_world [example_record ''r1'' credential_issued 0]))))
     = Some (Some ''Blockchain registration failed: Blockchain network is not reachable'')
   \<and> map_option blockchainVerification
      (KYCRecord_findById ''r1''
        (last (registerOnBlockchain example_services 1000 ''r1''
                 (example_world [example_record ''r1'' credential_issued 0]))))
     = Some default_blockchainVerification
   \<and> map_option completedAt
      (KYCRecord_findById ''r1''
        (last (registerOnBlockchain example_services 1000 ''r1''
                 (example_world [example_record ''r1'' credential_issued 0]))))
     = Some None"
proof -
  let ?r = "example_record ''r1'' credential_issued 0"
  let ?w = "example_world [?r]"
  have h1: "KYCRecord_findById ''r1'' ?w = Some ?r"
    by (simp add: KYCRecord_findById_def example_world_def example_record_def)
  have h2: "User_findById (userId ?r) ?w = Some example_user"
    by (simp add: User_findById_def example_world_def example_record_def example_user_def)
  note after = ledger_failure_keeps_credential_issued [OF h1 h2 ex_ledger_fails,
      THEN conjunct2, THEN conjunct1]
  show ?thesis
    unfolding after by (simp add: example_record_def)
qed

subsection \<open>What is handed to the ledger client\<close>

text \<open>
  C5, evaluated on the code. The object that \<open>registerOnBlockchain\<close> hands to the
  ledger client has the key \<open>documentNumber\<close> with the plain document number of the
  record, next to the hash. The client does not use the key: the object it hashes and
  its answer are the same whatever the plain number is. The credential data that
  \<open>issueAriesCredential\<close> stores on the record holds the plain number as well.
\<close>

theorem ledger_payload_holds_plain_document_number:
  "bd_documentNumber (blockchainData r) = documentNumber r
   \<and> bd_documentNumberHash (blockchainData r) = documentNumberHash r
   \<and> build_hashData svc now uid (blockchainData (r\<lparr>documentNumber := n\<rparr>))
       = build_hashData svc now uid (blockchainData r)
   \<and> registerKYCOnBlockchain svc now uid (blockchainData (r\<lparr>documentNumber := n\<rparr>))
       = registerKYCOnBlockchain svc now uid (blockchainData r)
   \<and> bd_documentNumber (blockchainData (example_record ''r1'' credential_issued 0))
       = ''123456789012''"
proof -
  have hashed: "build_hashData svc now uid (blockchainData (r\<lparr>documentNumber := n\<rparr>))
      = build_hashData svc now uid (blockchainData r)"
    by (simp add: blockchainData_def build_hashData_def)
  have type: "bd_documentType (blockchainData (r\<lparr>documentNumber := n\<rparr>))
      = bd_documentType (blockchainData r)"
    by (simp add: blockchainData_def)
  have answer: "registerKYCOnBlockchain svc now uid (blockchainData (r\<lparr>documentNumber := n\<rparr>))
      = registerKYCOnBlockchain svc now uid (blockchainData r)"
    by (simp only: registerKYCOnBlockchain_def hashed type)
  have example: "bd_documentNumber (blockchainData (example_record ''r1'' credential_issued 0))
      = ''123456789012''"
    by (simp add: blockchainData_def example_record_def)
  show ?thesis
    using hashed answer example by (simp add: blockchainData_def)
qed


subsection \<open>The AI stage\<close>

lemma timer_ops_keep_collections [simp]:
  "kycRecords (setTimeout_5min i w) = kycRecords w"
  "users (setTimeout_5min i w) = users w"
  "kycRecords (clearTimeout i w) = kycRecords w"
  "users (clearTimeout i w) = users w"
  "timers (setTimeout_5min i w) = i # timers w"
  "timers (clearTimeout i w) = removeAll i (timers w)"
  by (simp_all add: setTimeout_5min_def clearTimeout_def)

lemma findById_timer_ops [simp]:
  "KYCRecord_findById i (setTimeout_5min j w) = KYCRecord_findById i w"
  "KYCRecord_findById i (clearTimeout j w) = KYCRecord_findById i w"
  "User_findById i (setTimeout_5min j w) = User_findById i w"
  "User_findById i (clearTimeout j w) = User_findById i w"
  "User_findById i (KYCRecord_findByIdAndUpdate j f w) = User_findById i w"
  by (simp_all add: KYCRecord_findById_def User_findById_def)

lemma User_findById_update:
  assumes "\<And>x. user_id (f x) = user_id x"
  shows "User_findById i (User_findByIdAndUpdate i f w) = map_option f (User_findById i w)"
  unfolding User_findById_def User_findByIdAndUpdate_def
  using find_update_first_same [of "\<lambda>x. user_id x = i" f "users w"] assms by simp

lemma User_findById_id: "User_findById i w = Some u \<Longrightarrow> user_id u = i"
  by (auto simp: User_findById_def find_Some_iff)

text \<open>The run of the pipeline when the AI service throws, and when its verdict is negative.\<close>

lemma run_ai_throws:
  assumes "\<not> isDummyModeEnabled svc" and "verifyDocuments svc images t n = Inl message"
  shows "last (processAIVerification svc now i images t n w)
     = KYCRecord_findByIdAndUpdate i (ai_error_update message)
         (clearTimeout i
           (KYCRecord_findByIdAndUpdate i
              (\<lambda>r. r\<lparr>status := ai_processing,
                     aiVerification := (aiVerification r)
                       \<lparr>aiv_status := processing,
                        steps := (steps (aiVerification r))\<lparr>qualityCheck := step_processing\<rparr>\<rparr>\<rparr>)
              (KYCRecord_findByIdAndUpdate i
                 (\<lambda>r. r\<lparr>status := ai_processing,
                        aiVerification := (aiVerification r)\<lparr>aiv_status := processing\<rparr>\<rparr>)
                 (setTimeout_5min i w))))"
  using assms
  by (simp add: processAIVerification_def uploadMultipleToIPFS_entries
      processAIVerification_catch_def Let_def)

lemma run_ai_negative:
  assumes "\<not> isDummyModeEnabled svc" and "verifyDocuments svc images t n = Inr aiResult"
    and "\<not> res_verified aiResult"
    and "KYCRecord_findById i w = Some r" and "User_findById (userId r) w = Some u"
  shows "\<exists>e1 e2 e3. last (processAIVerification svc now i images t n w)
     = User_findByIdAndUpdate (user_id u) (\<lambda>u. u\<lparr>kycStatus := kyc_rejected\<rparr>)
        (clearTimeout i
         (KYCRecord_findByIdAndUpdate i (updateData aiResult e1 e2 e3 now)
           (KYCRecord_findByIdAndUpdate i
              (\<lambda>r. r\<lparr>status := ai_processing,
                     aiVerification := (aiVerification r)
                       \<lparr>aiv_status := processing,
                        steps := (steps (aiVerification r))\<lparr>qualityCheck := step_processing\<rparr>\<rparr>\<rparr>)
              (KYCRecord_findByIdAndUpdate i
                 (\<lambda>r. r\<lparr>status := ai_processing,
                        aiVerification := (aiVerification r)\<lparr>aiv_status := processing\<rparr>\<rparr>)
                 (setTimeout_5min i w)))))"
proof -
  have uid: "userId (updateData aiResult e1 e2 e3 now x) = userId x" for e1 e2 e3 x
    by (simp add: updateData_def)
  show ?thesis
    using assms
    by (simp add: processAIVerification_def processAIVerification_decision_def
        uploadMultipleToIPFS_entries Let_def findById_update uid)
       (intro exI, rule refl)
qed

text \<open>
  C3, evaluated on the code. When the AI service throws, the run ends with the record
  \<open>rejected\<close>, the reason \<open>AI verification error: ...\<close> and the error message
  stored, and neither the credential nor the ledger sub-state written - but the
  collection of users is what it was before the run: the user's \<open>kycStatus\<close> is not
  set to \<open>rejected\<close>. When the service answers with \<open>verified = false\<close>, the record
  is \<open>rejected\<close> with the reason \<open>AI verification failed\<close> and the service's error
  list, no later stage has written, and the user's \<open>kycStatus\<close> is \<open>rejected\<close>.
\<close>

theorem ai_stage_failure_semantics:
  assumes "KYCRecord_findById i w = Some r" and "\<not> isDummyModeEnabled svc"
  shows "(verifyDocuments svc images t n = Inl message \<longrightarrow>
            (\<exists>r'. KYCRecord_findById i (last (processAIVerification svc now i images t n w))
                     = Some r'
                \<and> status r' = rejected
                \<and> rejectionReason r' = Some (''AI verification error: '' @ message)
                \<and> errors (aiVerification r') = [message]
                \<and> ariesCredential r' = ariesCredential r
                \<and> blockchainVerification r' = blockchainVerification r)
            \<and> users (last (processAIVerification svc now i images t n w)) = users w)
       \<and> (verifyDocuments svc images t n = Inr aiResult \<and> \<not> res_verified aiResult
            \<and> User_findById (userId r) w = Some u \<longrightarrow>
            (\<exists>r'. KYCRecord_findById i (last (processAIVerification svc now i images t n w))
                     = Some r'
                \<and> status r' = rejected
                \<and> rejectionReason r' = Some ''AI verification failed''
                \<and> errors (aiVerification r') = res_errors aiResult
                \<and> ariesCredential r' = ariesCredential r
                \<and> blockchainVerification r' = blockchainVerification r)
            \<and> map_option kycStatus
                 (User_findById (userId r) (last (processAIVerification svc now i images t n w)))
                 = Some kyc_rejected)"
proof (intro conjI impI)
  assume thrown: "verifyDocuments svc images t n = Inl message"
  note run = run_ai_throws [OF assms(2) thrown, of now i w]
  show "\<exists>r'. KYCRecord_findById i (last (processAIVerification svc now i images t n w)) = Some r'
      \<and> status r' = rejected
      \<and> rejectionReason r' = Some (''AI verification error: '' @ message)
      \<and> errors (aiVerification r') = [message]
      \<and> ariesCredential r' = ariesCredential r
      \<and> blockchainVerification r' = blockchainVerification r"
    unfolding run using assms(1) by (simp add: findById_update ai_error_update_def)
  show "users (last (processAIVerification svc now i images t n w)) = users w"
    unfolding run by simp
next
  assume negative: "verifyDocuments svc images t n = Inr aiResult \<and> \<not> res_verified aiResult
      \<and> User_findById (userId r) w = Some u"
  then have verdict: "verifyDocuments svc images t n = Inr aiResult"
    and no: "\<not> res_verified aiResult" and owner: "User_findById (userId r) w = Some u"
    by simp_all
  from run_ai_negative [OF assms(2) verdict no assms(1) owner, of now]
  obtain e1 e2 e3 where run: "last (processAIVerification svc now i images t n w)
     = User_findByIdAndUpdate (user_id u) (\<lambda>u. u\<lparr>kycStatus := kyc_rejected\<rparr>)
        (clearTimeout i
         (KYCRecord_findByIdAndUpdate i (updateData aiResult e1 e2 e3 now)
           (KYCRecord_findByIdAndUpdate i
              (\<lambda>r. r\<lparr>status := ai_processing,
                     aiVerification := (aiVerification r)
                       \<lparr>aiv_status := processing,
                        steps := (steps (aiVerification r))\<lparr>qualityCheck := step_processing\<rparr>\<rparr>\<rparr>)
              (KYCRecord_findByIdAndUpdate i
                 (\<lambda>r. r\<lparr>status := ai_processing,
                        aiVerification := (aiVerification r)\<lparr>aiv_status := processing\<rparr>\<rparr>)
                 (setTimeout_5min i w)))))"
    by (elim exE)
  show "\<exists>r'. KYCRecord_findById i (last (processAIVerification svc now i images t n w)) = Some r'
      \<and> status r' = rejected
      \<and> rejectionReason r' = Some ''AI verification failed''
      \<and> errors (aiVerification r') = res_errors aiResult
      \<and> ariesCredential r' = ariesCredential r
      \<and> blockchainVerification r' = blockchainVerification r"
    unfolding run using assms(1) no by (simp add: findById_update updateData_def)
  have "user_id u = userId r"
    using owner by (rule User_findById_id)
  then show "map_option kycStatus
      (User_findById (userId r) (last (processAIVerification svc now i images t n w)))
      = Some kyc_rejected"
    unfolding run using owner by (simp add: User_findById_update)
qed

theorem ai_stage_failure_semantics_witness:
  "map_option status
     (KYCRecord_findById ''r1''
       (last (processAIVerification (example_services\<lparr>DUMMY_AI_VERIFICATION := None\<rparr>) 1000
                ''r1'' example_images ''aadhaar'' ''123456789012''
                (example_world [example_record ''r1'' submitted 0]))))
     = Some rejected
   \<and> map_option kycStatus
     (User_findById ''u1''
       (last (processAIVerification (example_services\<lparr>DUMMY_AI_VERIFICATION := None\<rparr>) 1000
                ''r1'' example_images ''aadhaar'' ''123456789012''
                (example_world [example_record ''r1'' submitted 0]))))
     = Some kyc_in_progress
   \<and> map_option status
     (KYCRecord_findById ''r1''
       (last (processAIVerification example_services_negative 1000
                ''r1'' example_images ''aadhaar'' ''123456789012''
                (example_world [example_record ''r1'' submitted 0]))))
     = Some rejected
   \<and> map_option kycStatus
     (User_findById ''u1''
       (last (processAIVerification example_services_negative 1000
                ''r1'' example_images ''aadhaar'' ''123456789012''
                (example_world [example_record ''r1'' submitted 0]))))
     = Some kyc_rejected"
proof -
  let ?svc = "example_services\<lparr>DUMMY_AI_VERIFICATION := None\<rparr>"
  let ?r = "example_record ''r1'' submitted 0"
  let ?w = "example_world [?r]"
  let ?message = "''AI service is not reachable after multiple attempts. Please ensure it is running.''"
  let ?verdict = "\<lparr>res_verified = False, res_confidenceScore = 31 / 100,
      res_faceMatchScore = 12 / 100, res_ocrData = OcrExtracted [] [],
      res_errors = [''face mismatch'']\<rparr>"
  have h1: "KYCRecord_findById ''r1'' ?w = Some ?r"
    by (simp add: KYCRecord_findById_def example_world_def example_record_def)
  have h2: "\<not> isDummyModeEnabled ?svc"
    by (simp add: isDummyModeEnabled_def)
  have thrown: "verifyDocuments ?svc example_images ''aadhaar'' ''123456789012'' = Inl ?message"
    by (simp add: example_services_def)
  note facts = ai_stage_failure_semantics [OF h1 h2, of example_images "''aadhaar''"
      "''123456789012''" ?message 1000, THEN conjunct1, rule_format, OF thrown]
  from facts [THEN conjunct1] obtain r' where
    "KYCRecord_findById ''r1''
       (last (processAIVerification ?svc 1000 ''r1'' example_images ''aadhaar'' ''123456789012'' ?w))
     = Some r'" and "status r' = rejected"
    by (elim exE conjE)
  then have rejected: "map_option status
     (KYCRecord_findById ''r1''
       (last (processAIVerification ?svc 1000 ''r1'' example_images ''aadhaar'' ''123456789012'' ?w)))
     = Some rejected"
    by simp
  have unchanged: "map_option kycStatus
     (User_findById ''u1''
       (last (processAIVerification ?svc 1000 ''r1'' example_images ''aadhaar'' ''123456789012'' ?w)))
     = Some kyc_in_progress"
    unfolding User_findById_def facts [THEN conjunct2]
    by (simp add: example_world_def example_user_def)
  have h3: "\<not> isDummyModeEnabled example_services_negative"
    by (simp add: isDummyModeEnabled_def example_services_negative_def)
  have owner: "userId ?r = ''u1''"
    by (simp add: example_record_def)
  have negative: "verifyDocuments example_services_negative example_images ''aadhaar''
        ''123456789012'' = Inr ?verdict
      \<and> \<not> res_verified ?verdict
      \<and> User_findById (userId ?r) ?w = Some example_user"
    by (simp add: example_services_negative_def User_findById_def example_world_def
        example_user_def example_record_def)
  note verdict = ai_stage_failure_semantics [where aiResult = ?verdict and u = example_user
      and now = 1000 and images = example_images and t = "''aadhaar''"
      and n = "''123456789012''", OF h1 h3, THEN conjunct2, rule_format, OF negative]
  from verdict [THEN conjunct1] obtain r'' where
    "KYCRecord_findById ''r1''
       (last (processAIVerification example_services_negative 1000 ''r1'' example_images
          ''aadhaar'' ''123456789012'' ?w))
     = Some r''" and "status r'' = rejected"
    by (elim exE conjE)
  then have rejected_too: "map_option status
     (KYCRecord_findById ''r1''
       (last (processAIVerification example_services_negative 1000 ''r1'' example_images
          ''aadhaar'' ''123456789012'' ?w)))
     = Some rejected"
    by simp
  from verdict [THEN conjunct2] have follows: "map_option kycStatus
     (User_findById ''u1''
       (last (processAIVerification example_services_negative 1000 ''r1'' example_images
          ''aadhaar'' ''123456789012'' ?w)))
     = Some kyc_rejected"
    unfolding owner .
  from rejected unchanged rejected_too follows show ?thesis
    by (intro conjI)
qed


subsection \<open>The timer\<close>

lemma timers_registerOnBlockchain:
  "list_all (\<lambda>w'. timers w' = timers w) (registerOnBlockchain svc now i w)"
  by (simp add: registerOnBlockchain_def Let_def split: sum.splits prod.splits)

lemma timers_issueAriesCredential:
  "list_all (\<lambda>w'. timers w' = timers w) (issueAriesCredential svc now kycRecord populated w)"
proof -
  have "list_all (\<lambda>w'. timers w' = timers w)
          (registerOnBlockchain svc now i (KYCRecord_findByIdAndUpdate j f w))" for i j f
    using timers_registerOnBlockchain [of "KYCRecord_findByIdAndUpdate j f w" svc now i]
    by simp
  then show ?thesis
    by (simp add: issueAriesCredential_def Let_def split: sum.splits)
qed

lemma timers_catch:
  "list_all (\<lambda>w'. timers w' = removeAll i (timers w)) (processAIVerification_catch i message w)"
  by (simp add: processAIVerification_catch_def)

lemma timers_decision:
  "list_all (\<lambda>w'. timers w' = removeAll i (timers w))
     (processAIVerification_decision svc now i aiResult w)"
proof -
  have cleared: "list_all (\<lambda>w'. timers w' = removeAll i (timers w))
      (processAIVerification_catch i message (clearTimeout i w))" for message
    by (simp add: processAIVerification_catch_def)
  have issued: "list_all (\<lambda>w'. timers w' = removeAll i (timers w))
      (issueAriesCredential svc now kycRecord populated (clearTimeout i w))" for kycRecord populated
    using timers_issueAriesCredential [of "clearTimeout i w" svc now kycRecord populated]
    by simp
  show ?thesis
    by (simp add: processAIVerification_decision_def Let_def cleared issued
        split: option.splits)
qed

lemma status_of_update:
  assumes "\<And>r. rec_id (f r) = rec_id r"
  shows "status_of i (KYCRecord_findByIdAndUpdate i f w)
           = map_option (\<lambda>r. status (f r)) (KYCRecord_findById i w)"
  by (simp add: status_of_def findById_update assms option.map_comp comp_def)

lemma status_of_timer_ops [simp]:
  "status_of i (setTimeout_5min j w) = status_of i w"
  "status_of i (clearTimeout j w) = status_of i w"
  by (simp_all add: status_of_def)

lemma status_updateData [simp]:
  "status (updateData aiResult e1 e2 e3 now r)
     = (if res_verified aiResult then ai_verified else rejected)"
  by (simp add: updateData_def)

text \<open>
  Every state of a run has the timer of the record cleared, or it has the timer
  pending, and then the record is in the state the run found it in, or in
  \<open>ai_processing\<close>, \<open>ai_verified\<close> or \<open>rejected\<close>.
\<close>

lemma run_states:
  "list_all
     (\<lambda>w'. timers w' = removeAll i (timers w)
          \<or> (timers w' = i # timers w
              \<and> status_of i w' \<in> {status_of i w, None, Some ai_processing, Some ai_verified,
                                    Some rejected}))
     (processAIVerification svc now i images t n w)"
proof -
  define P where "P = (\<lambda>w'. timers w' = removeAll i (timers w)
          \<or> (timers w' = i # timers w
              \<and> status_of i w' \<in> {status_of i w, None, Some ai_processing, Some ai_verified,
                                    Some rejected}))"
  have cleared: "list_all P xs" if "list_all (\<lambda>w'. timers w' = removeAll i (timers w)) xs" for xs
    using that by (induction xs) (simp_all add: P_def)
  have caught: "list_all P (processAIVerification_catch i message v)"
    if "timers v = i # timers w" for message v
    using timers_catch [of i v message] that by (intro cleared) simp
  have decided: "list_all P (processAIVerification_decision svc now i aiResult v)"
    if "timers v = i # timers w" for aiResult v
    using timers_decision [of i v svc now aiResult] that by (intro cleared) simp
  have start: "P (setTimeout_5min i w)"
    by (simp add: P_def)
  have written: "P (KYCRecord_findByIdAndUpdate i f v)"
    if "timers v = i # timers w" and "\<And>r. rec_id (f r) = rec_id r"
      and "\<And>r. status (f r) = ai_processing \<or> status (f r) = ai_verified \<or> status (f r) = rejected"
    for f v
  proof (cases "KYCRecord_findById i v")
    case None
    with that(1,2) show ?thesis by (simp add: P_def status_of_update)
  next
    case (Some r)
    with that(1,2) that(3) [of r] show ?thesis by (auto simp: P_def status_of_update)
  qed
  have "list_all P (processAIVerification svc now i images t n w)"
    by (simp add: processAIVerification_def uploadMultipleToIPFS_entries Let_def
        caught decided start written split: sum.splits)
  then show ?thesis
    by (simp add: P_def)
qed

lemma run_nonempty [simp]:
  "processAIVerification_catch i message w \<noteq> []"
  "processAIVerification_decision svc now i aiResult w \<noteq> []"
  by (simp_all add: processAIVerification_catch_def processAIVerification_decision_def Let_def
      split: option.splits)

lemma list_all_last: "list_all Q xs \<Longrightarrow> xs \<noteq> [] \<Longrightarrow> Q (last xs)"
  by (simp add: list_all_iff)

lemma run_ends_cleared:
  "timers (last (processAIVerification svc now i images t n w)) = removeAll i (timers w)"
proof -
  have caught: "timers (last (processAIVerification_catch i message v)) = removeAll i (timers w)"
    if "timers v = i # timers w" for message v
    using list_all_last [OF timers_catch [of i v message]] that by simp
  have decided: "timers (last (processAIVerification_decision svc now i aiResult v))
      = removeAll i (timers w)"
    if "timers v = i # timers w" for aiResult v
    using list_all_last [OF timers_decision [of i v svc now aiResult]] that by simp
  show ?thesis
    by (simp add: processAIVerification_def uploadMultipleToIPFS_entries Let_def
        caught decided split: sum.splits)
qed

lemma timeout_handler_rejects:
  assumes "KYCRecord_findById i v = Some r"
  shows "list_all (\<lambda>w'. KYCRecord_findById i w' = Some (timeout_update now r))
           (timeout_handler now i v)"
  using assms
  by (simp add: timeout_handler_def Let_def findById_update split: option.splits)

text \<open>
  C2, as amended. The handler of the timer writes without looking at the record: in
  every state in which the record exists, whatever its status, the handler leaves it
  \<open>rejected\<close> with the timeout reason. What keeps a completed record from it is the
  cancellation of the timer: a run of the pipeline that starts with the timer not
  pending and the record neither \<open>credential_issued\<close> nor \<open>completed\<close> clears the
  timer before the credential and ledger stages, so in no state of the run is the
  timer pending while the record is \<open>credential_issued\<close> or \<open>completed\<close>, and the
  run ends with the timer cleared.
\<close>

theorem timeout_cancelled_before_completion:
  assumes "\<not> timer_pending i w"
    and "status_of i w \<noteq> Some completed" and "status_of i w \<noteq> Some credential_issued"
  shows "(\<forall>w' \<in> set (processAIVerification svc now i images t n w).
            timer_pending i w' \<longrightarrow>
              status_of i w' \<noteq> Some completed \<and> status_of i w' \<noteq> Some credential_issued)
       \<and> \<not> timer_pending i (last (processAIVerification svc now i images t n w))
       \<and> (KYCRecord_findById i v = Some r \<longrightarrow>
            (\<forall>w' \<in> set (timeout_handler now' i v).
               status_of i w' = Some rejected
               \<and> KYCRecord_findById i w' = Some (timeout_update now' r)))"
proof (intro conjI)
  from assms(1) have fresh: "removeAll i (timers w) = timers w"
    by (simp add: timer_pending_def)
  show "\<forall>w' \<in> set (processAIVerification svc now i images t n w).
      timer_pending i w' \<longrightarrow>
        status_of i w' \<noteq> Some completed \<and> status_of i w' \<noteq> Some credential_issued"
  proof (intro ballI impI)
    fix w'
    assume "w' \<in> set (processAIVerification svc now i images t n w)"
      and pending: "timer_pending i w'"
    with run_states [of i w svc now images t n]
    have "timers w' = removeAll i (timers w)
          \<or> (timers w' = i # timers w
              \<and> status_of i w' \<in> {status_of i w, None, Some ai_processing, Some ai_verified,
                                    Some rejected})"
      by (simp add: list_all_iff)
    with pending assms show
      "status_of i w' \<noteq> Some completed \<and> status_of i w' \<noteq> Some credential_issued"
      by (auto simp: timer_pending_def)
  qed
  show "\<not> timer_pending i (last (processAIVerification svc now i images t n w))"
    using assms(1) by (simp add: timer_pending_def run_ends_cleared)
  show "KYCRecord_findById i v = Some r \<longrightarrow>
      (\<forall>w' \<in> set (timeout_handler now' i v).
         status_of i w' = Some rejected \<and> KYCRecord_findById i w' = Some (timeout_update now' r))"
  proof
    assume "KYCRecord_findById i v = Some r"
    from timeout_handler_rejects [OF this, of now']
    show "\<forall>w' \<in> set (timeout_handler now' i v).
        status_of i w' = Some rejected \<and> KYCRecord_findById i w' = Some (timeout_update now' r)"
      by (simp add: list_all_iff status_of_def timeout_update_def)
  qed
qed

lemmas run_example_defs =
  processAIVerification_def processAIVerification_decision_def uploadMultipleToIPFS_entries
  isDummyModeEnabled_def performDummyAIVerification_def issueAriesCredential_def
  registerOnBlockchain_def registerKYCOnBlockchain_def and_then_def
  setTimeout_5min_def clearTimeout_def status_of_def timer_pending_def
  KYCRecord_findById_def KYCRecord_findByIdAndUpdate_def User_findById_def
  User_findByIdAndUpdate_def
  updateData_def credential_update_def ledger_failed_update_def ledger_completed_update_def
  example_world_def example_record_def example_user_def example_services_def Let_def

theorem timeout_cancelled_before_completion_witness:
  "\<not> timer_pending ''r1''
     (last (processAIVerification (example_services\<lparr>initializeBlockchain := None\<rparr>) 1000 ''r1''
              example_images ''aadhaar'' ''123456789012''
              (example_world [example_record ''r1'' submitted 0])))
   \<and> map (timer_pending ''r1'')
     (processAIVerification (example_services\<lparr>initializeBlockchain := None\<rparr>) 1000 ''r1''
        example_images ''aadhaar'' ''123456789012''
        (example_world [example_record ''r1'' submitted 0]))
     = [True, True, True, True, False, False, False, False]
   \<and> map (status_of ''r1'')
     (processAIVerification (example_services\<lparr>initializeBlockchain := None\<rparr>) 1000 ''r1''
        example_images ''aadhaar'' ''123456789012''
        (example_world [example_record ''r1'' submitted 0]))
     = [Some submitted, Some ai_processing, Some ai_processing, Some ai_verified,
        Some ai_verified, Some credential_issued, Some completed, Some completed]"
proof -
  let ?svc = "example_services\<lparr>initializeBlockchain := None\<rparr>"
  let ?w = "example_world [example_record ''r1'' submitted 0]"
  have h1: "\<not> timer_pending ''r1'' ?w"
    by (simp add: timer_pending_def example_world_def)
  have h2: "status_of ''r1'' ?w \<noteq> Some completed"
    and h3: "status_of ''r1'' ?w \<noteq> Some credential_issued"
    by (simp_all add: status_of_def KYCRecord_findById_def example_world_def example_record_def)
  note cleared = timeout_cancelled_before_completion [OF h1 h2 h3, of ?svc 1000 example_images
      "''aadhaar''" "''123456789012''", THEN conjunct2, THEN conjunct1]
  have statuses: "map (status_of ''r1'')
     (processAIVerification ?svc 1000 ''r1'' example_images ''aadhaar'' ''123456789012'' ?w)
     = [Some submitted, Some ai_processing, Some ai_processing, Some ai_verified,
        Some ai_verified, Some credential_issued, Some completed, Some completed]"
    by (simp add: run_example_defs)
  have pending: "map (timer_pending ''r1'')
     (processAIVerification ?svc 1000 ''r1'' example_images ''aadhaar'' ''123456789012'' ?w)
     = [True, True, True, True, False, False, False, False]"
    by (simp add: run_example_defs)
  from cleared pending statuses show ?thesis
    by (intro conjI)
qed

text \<open>
  The claim as written makes the handler's write a no-op on a terminal record. On a
  completed record the handler writes \<open>rejected\<close>. And a run in which the AI service
  returns a negative verdict passes through a state (its fourth) in which the record
  is already \<open>rejected\<close>, with the reason \<open>AI verification failed\<close>, while the timer
  is still pending; the handler, run in that state, replaces the reason.
\<close>

theorem timeout_handler_terminal_counterexample:
  "status_of ''r1'' (example_world [example_record ''r1'' completed 0]) = Some completed
   \<and> status_of ''r1''
       (last (timeout_handler 2000 ''r1'' (example_world [example_record ''r1'' completed 0])))
     = Some rejected
   \<and> timer_pending ''r1''
       (processAIVerification example_services_negative 1000 ''r1'' example_images ''aadhaar''
          ''123456789012'' (example_world [example_record ''r1'' submitted 0]) ! 3)
   \<and> map_option rejectionReason
       (KYCRecord_findById ''r1''
         (processAIVerification example_services_negative 1000 ''r1'' example_images ''aadhaar''
            ''123456789012'' (example_world [example_record ''r1'' submitted 0]) ! 3))
     = Some (Some ''AI verification failed'')
   \<and> map_option rejectionReason
       (KYCRecord_findById ''r1''
         (hd (timeout_handler 2000 ''r1''
           (processAIVerification example_services_negative 1000 ''r1'' example_images ''aadhaar''
              ''123456789012'' (example_world [example_record ''r1'' submitted 0]) ! 3))))
     = Some (Some (''AI verification timeout. The verification process took ''
                   @ ''too long. Please try again with clearer images.''))"
proof -
  let ?run = "processAIVerification example_services_negative 1000 ''r1'' example_images
      ''aadhaar'' ''123456789012'' (example_world [example_record ''r1'' submitted 0])"
  have done_before: "status_of ''r1'' (example_world [example_record ''r1'' completed 0])
      = Some completed"
    by (simp add: status_of_def KYCRecord_findById_def example_world_def example_record_def)
  have overwritten: "status_of ''r1''
       (last (timeout_handler 2000 ''r1'' (example_world [example_record ''r1'' completed 0])))
     = Some rejected"
    by (simp add: timeout_handler_def timeout_update_def run_example_defs)
  have pendings: "map (timer_pending ''r1'') ?run = [True, True, True, True, False, False]"
    by (simp add: run_example_defs example_services_negative_def)
  have reasons: "map (\<lambda>w'. map_option rejectionReason (KYCRecord_findById ''r1'' w')) ?run
      = [Some None, Some None, Some None, Some (Some ''AI verification failed''),
         Some (Some ''AI verification failed''), Some (Some ''AI verification failed'')]"
    by (simp add: run_example_defs example_services_negative_def)
  have len: "length ?run = 6"
    using arg_cong [OF pendings, of length] by simp
  from pendings have "map (timer_pending ''r1'') ?run ! 3 = True"
    by simp
  with len have pending: "timer_pending ''r1'' (?run ! 3)"
    by simp
  from reasons have "map (\<lambda>w'. map_option rejectionReason (KYCRecord_findById ''r1'' w')) ?run ! 3
      = Some (Some ''AI verification failed'')"
    by simp
  with len have reason: "map_option rejectionReason (KYCRecord_findById ''r1'' (?run ! 3))
      = Some (Some ''AI verification failed'')"
    by simp
  then obtain r where found: "KYCRecord_findById ''r1'' (?run ! 3) = Some r"
    by (cases "KYCRecord_findById ''r1'' (?run ! 3)") simp_all
  have "timeout_handler 2000 ''r1'' (?run ! 3) \<noteq> []"
    by (simp add: timeout_handler_def Let_def split: option.splits)
  with list_all_last timeout_handler_rejects [OF found, of 2000]
  have "KYCRecord_findById ''r1'' (hd (timeout_handler 2000 ''r1'' (?run ! 3)))
      = Some (timeout_update 2000 r)"
    by (simp add: list_all_iff)
  then have replaced: "map_option rejectionReason
       (KYCRecord_findById ''r1'' (hd (timeout_handler 2000 ''r1'' (?run ! 3))))
     = Some (Some (''AI verification timeout. The verification process took ''
                   @ ''too long. Please try again with clearer images.''))"
    by (simp add: timeout_update_def)
  from done_before overwritten pending reason replaced show ?thesis
    by (intro conjI)
qed

end
